theory Spec2Isabelle
  imports Main "HOL-Library.Sublist"
begin

section \<open>The post-receive hook of erred/githook\<close>

text \<open>
  A shallow embedding of \<^verbatim>\<open>cmd/post-receive/main.go\<close> (the current version, the first
  253 lines of the file). Go strings are byte strings, hence \<^typ>\<open>string\<close>. An \<^verbatim>\<open>error\<close>
  is represented by the text that \<^verbatim>\<open>err.Error()\<close> yields, which is all the hook ever
  does with one.
\<close>

type_synonym error = string

subsection \<open>Functions of the Go standard library\<close>

text \<open>\<^verbatim>\<open>strings.Cut(s, sep)\<close>: split around the first occurrence of \<open>sep\<close>.\<close>

fun Cut :: "string \<Rightarrow> string \<Rightarrow> string \<times> string \<times> bool" where
  "Cut [] sep = ([], [], sep = [])"
| "Cut (c # cs) sep =
     (if prefix sep (c # cs) then ([], drop (length sep) (c # cs), True)
      else (case Cut cs sep of
              (before, after, found) \<Rightarrow>
                if found then (c # before, after, True) else (c # cs, [], False)))"

text \<open>\<^verbatim>\<open>strings.TrimSuffix(s, suffix)\<close>.\<close>

definition TrimSuffix :: "string \<Rightarrow> string \<Rightarrow> string" where
  "TrimSuffix s suf = (if suffix suf s then take (length s - length suf) s else s)"

text \<open>
  \<^verbatim>\<open>strings.ReplaceAll(s, old, new)\<close> for a non-empty \<open>old\<close>: the non-overlapping
  occurrences of \<open>old\<close>, found from the left, are replaced. (For an empty \<open>old\<close> Go
  inserts \<open>new\<close> around every rune; the hook never calls it so, and the model returns
  \<open>s\<close> there.)
\<close>

function ReplaceAll :: "string \<Rightarrow> string \<Rightarrow> string \<Rightarrow> string" where
  "ReplaceAll [] old new = []"
| "ReplaceAll (c # cs) old new =
     (if old = [] then c # cs
      else if prefix old (c # cs) then new @ ReplaceAll (drop (length old) (c # cs)) old new
      else c # ReplaceAll cs old new)"
  by pat_completeness auto
termination
  by (relation "measure (\<lambda>(s, old, new). length s)") (auto simp: neq_Nil_conv)

text \<open>
  \<^verbatim>\<open>filepath.Base(path)\<close> on a Unix system: the last element of the path, after
  trailing slashes are removed; \<open>.\<close> for the empty path and \<open>/\<close> for a path of slashes.
\<close>

definition Base :: "string \<Rightarrow> string" where
  "Base path =
     (if path = [] then ''.''
      else
        let p = rev (dropWhile (\<lambda>c. c = CHR ''/'') (rev path));
            e = rev (takeWhile (\<lambda>c. c \<noteq> CHR ''/'') (rev p))
        in if e = [] then ''/'' else e)"

text \<open>
  \<^verbatim>\<open>strings.TrimSpace(s)\<close> on ASCII: leading and trailing tab, newline, vertical
  tab, form feed, carriage return and space are removed. (Go also removes the Unicode
  spaces U+0085 and U+00A0, which are multi-byte in UTF-8; they are not modelled.)
\<close>

definition isSpace :: "char \<Rightarrow> bool" where
  "isSpace c = (c \<in> {CHR 0x09, CHR 0x0A, CHR 0x0B, CHR 0x0C, CHR 0x0D, CHR '' ''})"

definition TrimSpace :: "string \<Rightarrow> string" where
  "TrimSpace s = rev (dropWhile isSpace (rev (dropWhile isSpace s)))"

text \<open>The repository name as the REST adapter addresses it (line 117).\<close>

definition sanitize :: "string \<Rightarrow> string" where
  "sanitize repoName = ReplaceAll repoName ''.'' ''-dot-''"

text \<open>
  \<^verbatim>\<open>strconv.ParseInt(s, 10, 64)\<close>, the value only (the hook discards the error):
  an optional sign and decimal digits; 0 on a syntax error, and the nearest bound of
  \<^verbatim>\<open>int64\<close> when the number is out of range.
\<close>

definition isDigit :: "char \<Rightarrow> bool" where
  "isDigit c = (48 \<le> (of_char c :: nat) \<and> (of_char c :: nat) \<le> 57)"

definition digitsVal :: "string \<Rightarrow> int" where
  "digitsVal ds = foldl (\<lambda>n c. 10 * n + (of_char c - 48)) 0 ds"

definition ParseInt :: "string \<Rightarrow> int" where
  "ParseInt s =
     (case s of
        [] \<Rightarrow> 0
      | c # cs \<Rightarrow>
          let neg = (c = CHR ''-'');
              ds = (if c = CHR ''+'' \<or> c = CHR ''-'' then cs else s)
          in if ds = [] \<or> \<not> list_all isDigit ds then 0
             else
               let un = min (digitsVal ds) (2 ^ 64 - 1)
               in if \<not> neg \<and> un \<ge> 2 ^ 63 then 2 ^ 63 - 1
                  else if neg \<and> un > 2 ^ 63 then - (2 ^ 63)
                  else if neg then - un else un)"

text \<open>The verb \<^verbatim>\<open>%d\<close> of \<^verbatim>\<open>fmt.Sprintf\<close> on a non-negative integer.\<close>

fun itoa :: "nat \<Rightarrow> string" where
  "itoa n = (if n < 10 then [char_of (48 + n)] else itoa (n div 10) @ [char_of (48 + n mod 10)])"

declare itoa.simps [simp del]

text \<open>
  How \<^verbatim>\<open>fmt\<close> and \<^verbatim>\<open>log\<close> print a \<^verbatim>\<open>[]string\<close> operand (\<^verbatim>\<open>[a b c]\<close>), and the
  operands of a \<^verbatim>\<open>Println\<close> (separated by spaces, ended by a newline).
\<close>

fun joinWith :: "string \<Rightarrow> string list \<Rightarrow> string" where
  "joinWith sep [] = []"
| "joinWith sep [x] = x"
| "joinWith sep (x # y # ys) = x @ sep @ joinWith sep (y # ys)"

definition showStrings :: "string list \<Rightarrow> string" where
  "showStrings xs = ''['' @ joinWith '' '' xs @ '']''"

definition NL :: string where
  "NL = [CHR 0x0A]"

definition TAB :: string where
  "TAB = [CHR 0x09]"

definition lnOf :: "string list \<Rightarrow> string" where
  "lnOf operands = joinWith '' '' operands @ NL"

text \<open>
  A string as \<^verbatim>\<open>encoding/json\<close> writes it with HTML escaping on, as
  \<^verbatim>\<open>json.Marshal\<close> has it: quote and backslash get a backslash; backspace, form
  feed, newline, carriage return and tab their short escapes; the other control
  characters and \<open><\<close>, \<open>>\<close>, \<open>&\<close> become \<^verbatim>\<open>\u00XX\<close>. Bytes from 0x80 on are
  copied (Go replaces invalid UTF-8 by U+FFFD, escaped, and escapes U+2028 and U+2029;
  that is not modelled).
\<close>

definition hexLower :: "nat \<Rightarrow> char" where
  "hexLower d = ''0123456789abcdef'' ! (d mod 16)"

definition hexUpper :: "nat \<Rightarrow> char" where
  "hexUpper d = ''0123456789ABCDEF'' ! (d mod 16)"

definition jsonChar :: "char \<Rightarrow> string" where
  "jsonChar c =
     (if c = CHR 0x5C \<or> c = CHR 0x22 then [CHR 0x5C, c]
      else if c = CHR 0x08 then [CHR 0x5C, CHR ''b'']
      else if c = CHR 0x0C then [CHR 0x5C, CHR ''f'']
      else if c = CHR 0x0A then [CHR 0x5C, CHR ''n'']
      else if c = CHR 0x0D then [CHR 0x5C, CHR ''r'']
      else if c = CHR 0x09 then [CHR 0x5C, CHR ''t'']
      else if (of_char c :: nat) < 0x20 \<or> c = CHR ''<'' \<or> c = CHR ''>'' \<or> c = CHR ''&''
        then [CHR 0x5C, CHR ''u'', CHR ''0'', CHR ''0'',
              hexLower (of_char c div 16), hexLower (of_char c)]
      else [c])"

definition jsonString :: "string \<Rightarrow> string" where
  "jsonString s = [CHR 0x22] @ concat (map jsonChar s) @ [CHR 0x22]"

text \<open>
  \<^verbatim>\<open>url.URL.String()\<close> escapes the path: letters, digits and \<^verbatim>\<open>-_.~$&+,/:;=@\<close>
  stay, every other byte becomes \<^verbatim>\<open>%XX\<close>.
\<close>

definition shouldEscape :: "char \<Rightarrow> bool" where
  "shouldEscape c =
     (let n = (of_char c :: nat)
      in \<not> ((97 \<le> n \<and> n \<le> 122) \<or> (65 \<le> n \<and> n \<le> 90) \<or> (48 \<le> n \<and> n \<le> 57)
            \<or> c \<in> set ''-_.~$&+,/:;=@''))"

definition escapePath :: "string \<Rightarrow> string" where
  "escapePath p =
     concat (map (\<lambda>c. if shouldEscape c
                        then [CHR ''%'', hexUpper (of_char c div 16), hexUpper (of_char c)]
                        else [c]) p)"

subsection \<open>The data of the hook\<close>

text \<open>
  The structs of lines 23 to 57. \<open>CIConfig\<close> has the one field \<^verbatim>\<open>Tekton.Pipeline\<close>. Both
  payloads have fields called Commit, Branch, Message and Author in the source; the fields
  of \<open>TektonPayload\<close> carry the prefix \<open>T\<close> here, and the records are named after the
  structs.
\<close>

record CIConfig =
  Tekton_Pipeline :: string

record Author =
  Name :: string
  Email :: string

record BuildkitePayload =
  Commit :: string
  Branch :: string
  Message :: string
  Author :: Author

record TektonPayload =
  TRepo :: string
  TBranch :: string
  TCommit :: string
  TMessage :: string
  TAuthor :: string
  TEmail :: string
  TektonPipeline :: string

record Response =
  WebURL :: string
  State :: string

record TektonResponse =
  EventListenerUID :: string
  EventID :: string

text \<open>
  \<^verbatim>\<open>json.Marshal\<close> of the two payloads, field by field in the order of the struct, under
  the names of the \<^verbatim>\<open>json\<close> tags; \<^verbatim>\<open>tektonPipeline\<close> is \<^verbatim>\<open>omitempty\<close>. Marshalling a struct
  of strings has no error, so the result is always \<open>Inr\<close>; the callers keep the error branch
  of the source.
\<close>

definition jsonField :: "string \<Rightarrow> string \<Rightarrow> string" where
  "jsonField k v = jsonString k @ '':'' @ v"

definition Marshal_Author :: "Author \<Rightarrow> string" where
  "Marshal_Author a =
     ''{'' @ jsonField ''name'' (jsonString (Name a)) @ '','' @
     jsonField ''email'' (jsonString (Email a)) @ ''}''"

definition Marshal_BuildkitePayload :: "BuildkitePayload \<Rightarrow> error + string" where
  "Marshal_BuildkitePayload p =
     Inr (''{'' @ jsonField ''commit'' (jsonString (Commit p)) @ '','' @
          jsonField ''branch'' (jsonString (Branch p)) @ '','' @
          jsonField ''message'' (jsonString (Message p)) @ '','' @
          jsonField ''author'' (Marshal_Author (Author p)) @ ''}'')"

definition Marshal_TektonPayload :: "TektonPayload \<Rightarrow> error + string" where
  "Marshal_TektonPayload p =
     Inr (''{'' @ jsonField ''repo'' (jsonString (TRepo p)) @ '','' @
          jsonField ''branch'' (jsonString (TBranch p)) @ '','' @
          jsonField ''commit'' (jsonString (TCommit p)) @ '','' @
          jsonField ''message'' (jsonString (TMessage p)) @ '','' @
          jsonField ''author'' (jsonString (TAuthor p)) @ '','' @
          jsonField ''email'' (jsonString (TEmail p)) @
          (if TektonPipeline p = [] then []
           else '','' @ jsonField ''tektonPipeline'' (jsonString (TektonPipeline p))) @
          ''}'')"

subsection \<open>The world the hook runs in, and what it does to it\<close>

text \<open>
  What the hook reads from outside is a record of inputs: the process environment, the
  result of \<^verbatim>\<open>os.Getwd\<close>, the result of \<^verbatim>\<open>fmt.Scanln\<close> on the three variables (the
  line git writes on standard input), what \<^verbatim>\<open>git\<close> answers to an argument list
  (\<^verbatim>\<open>CombinedOutput\<close>: the bytes and the error, if any), whether \<^verbatim>\<open>http.NewRequest\<close>
  accepts a URL, what the HTTP client answers to a request, and what the JSON and CUE
  decoders make of a body.
\<close>

record request =
  reqMethod :: string
  reqURL :: string
  reqHeader :: "(string \<times> string) list"
  reqBody :: string

record response =
  StatusCode :: int
  Status :: string
  Body :: string

record world =
  environ :: "string \<rightharpoonup> string"
  getwd :: "error + string"
  scanln :: "error + (string \<times> string \<times> string)"
  git :: "string list \<Rightarrow> string \<times> error option"
  newRequestErr :: "string \<Rightarrow> error option"
  httpDo :: "request \<Rightarrow> error + response"
  decodeResponse :: "string \<Rightarrow> error + Response"
  decodeTektonResponse :: "string \<Rightarrow> error + TektonResponse"
  cueDecode :: "string \<Rightarrow> error + CIConfig"

text \<open>\<^verbatim>\<open>os.Getenv\<close>: the empty string for a variable that is not set.\<close>

definition Getenv :: "world \<Rightarrow> string \<Rightarrow> string" where
  "Getenv w k = (case environ w k of None \<Rightarrow> [] | Some v \<Rightarrow> v)"

text \<open>
  What the hook does is a list of events, in order: a record of the structured logger
  (on standard error), bytes on standard output, a line of the \<^verbatim>\<open>log\<close> package on standard
  error (without its time stamp), a run of \<^verbatim>\<open>git\<close>, an HTTP request sent. A computation
  ends with a value, or with the exit of the process (\<^verbatim>\<open>log.Fatalln\<close> calls
  \<^verbatim>\<open>os.Exit(1)\<close>), after which nothing runs.
\<close>

datatype level = LevelDebug | LevelInfo | LevelWarn | LevelError

datatype event =
    Slog level string "(string \<times> string) list"
  | Stdout string
  | Stderr string
  | Exec "string list"
  | HttpSend request

datatype 'a outcome = Val 'a | Exit nat

type_synonym 'a proc = "event list \<times> 'a outcome"

definition ret :: "'a \<Rightarrow> 'a proc" where
  "ret x = ([], Val x)"

definition emit :: "event \<Rightarrow> unit proc" where
  "emit e = ([e], Val ())"

definition and_then :: "'a proc \<Rightarrow> ('a \<Rightarrow> 'b proc) \<Rightarrow> 'b proc" where
  "and_then m f =
     (case m of
        (es, Exit c) \<Rightarrow> (es, Exit c)
      | (es, Val x) \<Rightarrow> (case f x of (es', r) \<Rightarrow> (es @ es', r)))"

text \<open>
  The logger of \<^verbatim>\<open>main\<close> has the default handler options, whose level is Info: a record
  at Debug is dropped.
\<close>

definition LogAttrs :: "level \<Rightarrow> string \<Rightarrow> (string \<times> string) list \<Rightarrow> unit proc" where
  "LogAttrs l msg attrs = (if l = LevelDebug then ret () else emit (Slog l msg attrs))"

definition log_Println :: "string list \<Rightarrow> unit proc" where
  "log_Println operands = emit (Stderr (lnOf operands))"

definition log_Fatalln :: "string list \<Rightarrow> 'a proc" where
  "log_Fatalln operands = ([Stderr (lnOf operands)], Exit 1)"

definition fmt_Print :: "string \<Rightarrow> unit proc" where
  "fmt_Print s = emit (Stdout s)"

definition seq :: "unit proc \<Rightarrow> 'b proc \<Rightarrow> 'b proc" where
  "seq m k = and_then m (\<lambda>_. k)"

subsection \<open>The hook\<close>

text \<open>
  Lines 69 to 74: the push options, a map filled in the order of the numbered variables;
  \<open>setOption\<close> is the body of the loop.
\<close>

definition setOption :: "world \<Rightarrow> (string \<rightharpoonup> string) \<Rightarrow> nat \<Rightarrow> (string \<rightharpoonup> string)" where
  "setOption w m i =
     (case Cut (Getenv w (''GIT_PUSH_OPTION_'' @ itoa i)) ''='' of (k, v, _) \<Rightarrow> m(k \<mapsto> v))"

definition pushOptions :: "world \<Rightarrow> (string \<rightharpoonup> string)" where
  "pushOptions w =
     (let n = ParseInt (Getenv w ''GIT_PUSH_OPTION_COUNT'')
      in foldl (setOption w) Map.empty [0..<nat n])"

text \<open>\<^verbatim>\<open>mustExecGit\<close> (lines 233 to 240): the trimmed output, or the end of the process.\<close>

definition mustExecGit :: "world \<Rightarrow> string list \<Rightarrow> string proc" where
  "mustExecGit w args =
     seq (emit (Exec (''git'' # args)))
       (case git w args of
          (b, Some err) \<Rightarrow>
            seq (log_Println [''output'', b])
              (log_Fatalln [''run git'', showStrings args, err])
        | (b, None) \<Rightarrow> ret (TrimSpace b))"

text \<open>\<^verbatim>\<open>readCIConfig\<close> (lines 242 to 253): the configuration and the error, as Go returns both.\<close>

definition readCIConfig :: "world \<Rightarrow> string \<Rightarrow> (CIConfig \<times> error option) proc" where
  "readCIConfig w rev' =
     seq (emit (Exec [''git'', ''cat-file'', rev' @ '':'' @ ''ci.cue'']))
       (case git w [''cat-file'', rev' @ '':'' @ ''ci.cue''] of
          (b, Some err) \<Rightarrow>
            ret (\<lparr>Tekton_Pipeline = []\<rparr>, Some (''git cat-file '' @ rev' @ '':ci.cue: '' @ err))
        | (b, None) \<Rightarrow>
            (case cueDecode w b of
               Inl err \<Rightarrow> ret (\<lparr>Tekton_Pipeline = []\<rparr>, Some (''cue decode ci.cue: '' @ err))
             | Inr ciConfig \<Rightarrow> ret (ciConfig, None)))"

text \<open>
  The URL of lines 134 to 138 as \<^verbatim>\<open>u.String()\<close> gives it: scheme, host (which needs no
  escaping) and the escaped path.
\<close>

definition buildkiteURL :: "string \<Rightarrow> string \<Rightarrow> string" where
  "buildkiteURL org repoName =
     ''https://api.buildkite.com'' @
     escapePath (''/v2/organizations/'' @ org @ ''/pipelines/'' @ repoName @ ''/builds'')"

text \<open>
  The buildkite closure (lines 106 to 167). It returns the pair \<^verbatim>\<open>(string, error)\<close> of the
  source. The repository name is sanitized into a variable of the closure's own, which
  shadows the outer one.
\<close>

definition buildkite ::
  "world \<Rightarrow> string \<Rightarrow> string \<Rightarrow> string \<Rightarrow> string \<Rightarrow> string \<Rightarrow> string \<Rightarrow> (string \<times> error option) proc"
where
  "buildkite w repoName commit branch message author email =
     (let org = Getenv w ''BUILDKITE_ORG_SLUG'' in
      if org = [] then ret ([], Some ''no BUILDKITE_ORG_SLUG found'')
      else
        let token = Getenv w ''BUILDKITE_API_TOKEN'' in
        if token = [] then ret ([], Some ''no BUILDKITE_API_TOKEN found'')
        else
          let repoName' = sanitize repoName;
              payload = \<lparr>Commit = commit, Branch = branch, Message = message,
                         Author = \<lparr>Name = author, Email = email\<rparr>\<rparr>
          in case Marshal_BuildkitePayload payload of
               Inl err \<Rightarrow>
                 seq (LogAttrs LevelError ''failed to marshal payload'' [(''error'', err)])
                   (ret ([], Some err))
             | Inr b \<Rightarrow>
                 let u = buildkiteURL org repoName' in
                 (case newRequestErr w u of
                    Some err \<Rightarrow>
                      seq (LogAttrs LevelError ''failed to create request'' [(''error'', err)])
                        (ret ([], Some err))
                  | None \<Rightarrow>
                      let req = \<lparr>reqMethod = ''POST'', reqURL = u,
                                 reqHeader = [(''content-type'', ''application/json''),
                                              (''authorization'', ''Bearer '' @ token)],
                                 reqBody = b\<rparr>
                      in seq (emit (HttpSend req))
                           (case httpDo w req of
                              Inl err \<Rightarrow>
                                seq (LogAttrs LevelError ''failed to send request to buildkite''
                                       [(''org'', org), (''repo_name'', repoName'), (''error'', err)])
                                  (ret ([], Some err))
                            | Inr res \<Rightarrow>
                                if StatusCode res < 200 \<or> StatusCode res > 299 then
                                  seq (fmt_Print (Body res))
                                    (seq (fmt_Print NL)
                                      (seq (log_Println [''url'', u])
                                        (seq (log_Println [''body'', b])
                                          (log_Fatalln [''unexpected response from buildkite'',
                                                        Status res]))))
                                else
                                  (case decodeResponse w (Body res) of
                                     Inl err \<Rightarrow>
                                       seq (LogAttrs LevelError ''failed to read response''
                                              [(''error'', err)])
                                         (ret ([], Some err))
                                   | Inr response \<Rightarrow>
                                       seq (LogAttrs LevelDebug ''got response''
                                              [(''state'', State response),
                                               (''web_url'', WebURL response)])
                                         (ret (State response @ '':'' @ TAB @ WebURL response,
                                               None))))))"

text \<open>The tekton closure (lines 174 to 221); it sees the outer, unsanitized repository name.\<close>

definition tekton ::
  "world \<Rightarrow> string \<Rightarrow> string \<Rightarrow> string \<Rightarrow> string \<Rightarrow> string \<Rightarrow> string \<Rightarrow> CIConfig
     \<Rightarrow> (string \<times> error option) proc"
where
  "tekton w repoName commit branch message author email ciConfig =
     (let endpoint = Getenv w ''TEKTON_TRIGGERS_ENDPOINT'' in
      if endpoint = [] then ret ([], Some ''no TEKTON_TRIGGERS_ENDPOINT provided'')
      else
        let payload = \<lparr>TRepo = repoName, TBranch = branch, TCommit = commit,
                       TMessage = message, TAuthor = author, TEmail = email,
                       TektonPipeline = Tekton_Pipeline ciConfig\<rparr>
        in case Marshal_TektonPayload payload of
             Inl err \<Rightarrow>
               seq (LogAttrs LevelError ''failed to marshal payload'' [(''error'', err)])
                 (ret ([], Some err))
           | Inr b \<Rightarrow>
               (case newRequestErr w endpoint of
                  Some err \<Rightarrow>
                    seq (LogAttrs LevelError ''failed to create request'' [(''error'', err)])
                      (ret ([], Some err))
                | None \<Rightarrow>
                    let req = \<lparr>reqMethod = ''POST'', reqURL = endpoint,
                               reqHeader = [(''content-type'', ''application/json'')],
                               reqBody = b\<rparr>
                    in seq (emit (HttpSend req))
                         (case httpDo w req of
                            Inl err \<Rightarrow>
                              seq (LogAttrs LevelError ''failed to send request to tekton''
                                     [(''error'', err)])
                                (ret ([], Some err))
                          | Inr res \<Rightarrow>
                              if StatusCode res < 200 \<or> StatusCode res > 299 then
                                seq (fmt_Print (Body res))
                                  (seq (fmt_Print NL)
                                    (seq (log_Println [''body'', b])
                                      (log_Fatalln [''unexpected response from tekton'',
                                                    Status res])))
                              else
                                (case decodeTektonResponse w (Body res) of
                                   Inl err \<Rightarrow>
                                     seq (LogAttrs LevelError ''failed to read response''
                                            [(''error'', err)])
                                       (ret ([], Some err))
                                 | Inr response \<Rightarrow>
                                     seq (LogAttrs LevelDebug ''got response''
                                            [(''eventlistener_uid'', EventListenerUID response),
                                             (''event_id'', EventID response)])
                                       (ret (''event-id:'' @ TAB @ EventID response, None))))))"

text \<open>
  Lines 105 to 231 of \<^verbatim>\<open>run\<close>: the two closures one after the other and the report. After
  the buildkite closure an error replaces \<^verbatim>\<open>buildkiteResponse\<close> by its text (line 170);
  after the tekton closure an error is logged only (lines 222 to 224).
\<close>

definition dispatch ::
  "world \<Rightarrow> string \<Rightarrow> string \<Rightarrow> string \<Rightarrow> string \<Rightarrow> string \<Rightarrow> string \<Rightarrow> CIConfig
     \<Rightarrow> (error option) proc"
where
  "dispatch w repoName commit branch message author email ciConfig =
     and_then (buildkite w repoName commit branch message author email)
       (\<lambda>(buildkiteResponse0, err).
     and_then (case err of
                 Some e \<Rightarrow> seq (LogAttrs LevelError ''send to buildkite'' [(''error'', e)]) (ret e)
               | None \<Rightarrow> ret buildkiteResponse0)
       (\<lambda>buildkiteResponse.
     and_then (tekton w repoName commit branch message author email ciConfig)
       (\<lambda>(tektonResponse, err).
     seq (case err of
            Some e \<Rightarrow> LogAttrs LevelError ''send to tekton'' [(''error'', e)]
          | None \<Rightarrow> ret ())
       (seq (fmt_Print NL)
         (seq (fmt_Print (TAB @ ''buildkite: '' @ buildkiteResponse @ NL))
           (seq (fmt_Print (TAB @ ''tekton: '' @ tektonResponse @ NL))
             (seq (fmt_Print NL)
               (ret None))))))))"

text \<open>\<^verbatim>\<open>run\<close> (lines 68 to 231); its value is the error it returns, if any.\<close>

definition run :: "world \<Rightarrow> (error option) proc" where
  "run w =
     (if pushOptions w ''ci.skip'' \<noteq> None then
        seq (LogAttrs LevelInfo ''skipping ci'' [(''push.option'', ''ci.skip'')]) (ret None)
      else
        case getwd w of
          Inl err \<Rightarrow>
            seq (LogAttrs LevelError ''failed to get working directory'' [(''error'', err)])
              (ret (Some err))
        | Inr dir \<Rightarrow>
            let repoName = TrimSuffix (Base dir) ''.git'' in
            (case scanln w of
               Inl err \<Rightarrow>
                 seq (LogAttrs LevelError ''failed to scan post-receive input'' [(''error'', err)])
                   (ret (Some err))
             | Inr (oldRev, newRev, refName) \<Rightarrow>
                 let commit = newRev in
                 and_then (mustExecGit w [''rev-parse'', ''--abbrev-ref'', refName]) (\<lambda>branch.
                 and_then (mustExecGit w [''log'', ''-1'', ''HEAD'', ''--format=%B'', ''--'']) (\<lambda>message.
                 and_then (mustExecGit w [''log'', ''-1'', ''HEAD'', ''--format=%an'', ''--'']) (\<lambda>author.
                 and_then (mustExecGit w [''log'', ''-1'', ''HEAD'', ''--format=%ae'', ''--'']) (\<lambda>email.
                 and_then (readCIConfig w newRev) (\<lambda>(ciConfig, err).
                 seq (case err of
                        Some e \<Rightarrow> LogAttrs LevelWarn ''failed to get ci.cue'' [(''error'', e)]
                      | None \<Rightarrow> ret ())
                   (dispatch w repoName commit branch message author email ciConfig))))))))"

text \<open>
  \<^verbatim>\<open>main\<close> (lines 59 to 66): the events and the exit status of the process. An error that
  \<^verbatim>\<open>run\<close> returns is logged, and \<^verbatim>\<open>main\<close> returns: status 0.
\<close>

definition main :: "world \<Rightarrow> event list \<times> nat" where
  "main w =
     (case run w of
        (es, Exit c) \<Rightarrow> (es, c)
      | (es, Val None) \<Rightarrow> (es, 0)
      | (es, Val (Some err)) \<Rightarrow> (es @ [Slog LevelError ''failed'' [(''error'', err)]], 0))"

text \<open>
  The HTTP requests among the events, the commands run, and what was written to
  standard output.
\<close>

fun requests :: "event list \<Rightarrow> request list" where
  "requests [] = []"
| "requests (HttpSend r # es) = r # requests es"
| "requests (e # es) = requests es"

fun execs :: "event list \<Rightarrow> string list list" where
  "execs [] = []"
| "execs (Exec argv # es) = argv # execs es"
| "execs (e # es) = execs es"

fun stdout :: "event list \<Rightarrow> string list" where
  "stdout [] = []"
| "stdout (Stdout s # es) = s # stdout es"
| "stdout (e # es) = stdout es"

subsection \<open>Concrete worlds\<close>

text \<open>
  Inputs on which the hook is evaluated below. The repository lives in
  \<^verbatim>\<open>/srv/git/my.repo.git\<close>. \<open>gitPushMain\<close> is what git answers after a push of commit
  \<^verbatim>\<open>abc123\<close> to \<^verbatim>\<open>main\<close>, the branch \<^verbatim>\<open>HEAD\<close> names; its first argument is the answer
  to \<^verbatim>\<open>cat-file abc123:ci.cue\<close>. \<open>gitPushFeature\<close> is what git answers after a push of
  commit \<^verbatim>\<open>def456\<close> to the branch \<^verbatim>\<open>feature\<close>, while \<^verbatim>\<open>HEAD\<close> still names \<^verbatim>\<open>main\<close>, whose
  tip is \<^verbatim>\<open>abc123\<close>.
\<close>

definition gitPushMain :: "string \<times> error option \<Rightarrow> string list \<Rightarrow> string \<times> error option" where
  "gitPushMain catFile args =
     (if args = [''rev-parse'', ''--abbrev-ref'', ''refs/heads/main''] then (''main'' @ NL, None)
      else if args = [''log'', ''-1'', ''HEAD'', ''--format=%B'', ''--'']
        then (''fix bug'' @ NL @ NL, None)
      else if args = [''log'', ''-1'', ''HEAD'', ''--format=%an'', ''--'']
        then (''Jane Doe'' @ NL, None)
      else if args = [''log'', ''-1'', ''HEAD'', ''--format=%ae'', ''--'']
        then (''jane@example.com'' @ NL, None)
      else if args = [''cat-file'', ''abc123:ci.cue''] then catFile
      else (''usage: git'' @ NL, Some ''exit status 129''))"

definition gitPushFeature :: "string list \<Rightarrow> string \<times> error option" where
  "gitPushFeature args =
     (if args = [''rev-parse'', ''--abbrev-ref'', ''refs/heads/feature'']
        then (''feature'' @ NL, None)
      else if args = [''log'', ''-1'', ''HEAD'', ''--format=%B'', ''--'']
        then (''fix bug'' @ NL @ NL, None)
      else if args = [''log'', ''-1'', ''HEAD'', ''--format=%an'', ''--'']
        then (''Jane Doe'' @ NL, None)
      else if args = [''log'', ''-1'', ''HEAD'', ''--format=%ae'', ''--'']
        then (''jane@example.com'' @ NL, None)
      else if args = [''log'', ''-1'', ''def456'', ''--format=%B'', ''--'']
        then (''add feature'' @ NL @ NL, None)
      else if args = [''log'', ''-1'', ''def456'', ''--format=%an'', ''--'']
        then (''John Roe'' @ NL, None)
      else if args = [''log'', ''-1'', ''def456'', ''--format=%ae'', ''--'']
        then (''john@example.com'' @ NL, None)
      else if args = [''cat-file'', ''def456:ci.cue'']
        then (''fatal: path ci.cue does not exist in def456'' @ NL, Some ''exit status 128'')
      else (''usage: git'' @ NL, Some ''exit status 129''))"

definition noConfig :: "string \<times> error option" where
  "noConfig = (''fatal: path ci.cue does not exist in abc123'' @ NL, Some ''exit status 128'')"

definition httpAnswer :: "int \<Rightarrow> string \<Rightarrow> request \<Rightarrow> error + response" where
  "httpAnswer code status req = Inr \<lparr>StatusCode = code, Status = status, Body = ''{}''\<rparr>"

definition fixture ::
  "(string \<rightharpoonup> string) \<Rightarrow> string \<times> string \<times> string \<Rightarrow> (string list \<Rightarrow> string \<times> error option)
     \<Rightarrow> (request \<Rightarrow> error + response) \<Rightarrow> (string \<Rightarrow> error + CIConfig) \<Rightarrow> world"
where
  "fixture env line answers http cue =
     \<lparr>environ = env,
      getwd = Inr ''/srv/git/my.repo.git'',
      scanln = Inr line,
      git = answers,
      newRequestErr = (\<lambda>u. None),
      httpDo = http,
      decodeResponse = (\<lambda>b. Inr \<lparr>WebURL = ''https://x/y'', State = ''scheduled''\<rparr>),
      decodeTektonResponse = (\<lambda>b. Inr \<lparr>EventListenerUID = ''u1'', EventID = ''e1''\<rparr>),
      cueDecode = cue\<rparr>"

definition pushMain :: "string \<times> string \<times> string" where
  "pushMain = (''000000'', ''abc123'', ''refs/heads/main'')"

definition envBoth :: "string \<rightharpoonup> string" where
  "envBoth = [''BUILDKITE_ORG_SLUG'' \<mapsto> ''acme'', ''BUILDKITE_API_TOKEN'' \<mapsto> ''s3cr3t'',
              ''TEKTON_TRIGGERS_ENDPOINT'' \<mapsto> ''http://el.ci.svc:8080'']"

definition envTektonOnly :: "string \<rightharpoonup> string" where
  "envTektonOnly = [''TEKTON_TRIGGERS_ENDPOINT'' \<mapsto> ''http://el.ci.svc:8080'']"

definition envBuildkiteOnly :: "string \<rightharpoonup> string" where
  "envBuildkiteOnly = [''BUILDKITE_ORG_SLUG'' \<mapsto> ''acme'', ''BUILDKITE_API_TOKEN'' \<mapsto> ''s3cr3t'']"

definition envSkip :: "string \<rightharpoonup> string" where
  "envSkip = envBoth(''GIT_PUSH_OPTION_COUNT'' \<mapsto> ''2'', ''GIT_PUSH_OPTION_0'' \<mapsto> ''deploy=prod'',
                     ''GIT_PUSH_OPTION_1'' \<mapsto> ''ci.skip'')"

definition noCue :: "string \<Rightarrow> error + CIConfig" where
  "noCue b = Inl ''ci.cue: not a struct''"

definition someCue :: "string \<Rightarrow> error + CIConfig" where
  "someCue b = Inr \<lparr>Tekton_Pipeline = ''nightly''\<rparr>"

definition wSkip :: world where
  "wSkip = fixture envSkip pushMain (gitPushMain noConfig) (httpAnswer 201 ''201 Created'') noCue"

definition wBothCue :: world where
  "wBothCue =
     fixture envBoth pushMain
       (gitPushMain (''tekton: pipeline: '' @ [CHR 0x22] @ ''nightly'' @ [CHR 0x22] @ NL, None))
       (httpAnswer 201 ''201 Created'') someCue"

definition wBoth :: world where
  "wBoth = fixture envBoth pushMain (gitPushMain noConfig) (httpAnswer 201 ''201 Created'') noCue"

definition wBadCue :: world where
  "wBadCue =
     fixture envBoth pushMain (gitPushMain (''tekton: 3'' @ NL, None))
       (httpAnswer 201 ''201 Created'') noCue"

definition wTektonOnly :: world where
  "wTektonOnly =
     fixture envTektonOnly pushMain (gitPushMain noConfig) (httpAnswer 201 ''201 Created'') noCue"

definition wBuildkiteOnly :: world where
  "wBuildkiteOnly =
     fixture envBuildkiteOnly pushMain (gitPushMain noConfig) (httpAnswer 201 ''201 Created'') noCue"

definition wNoCredentials :: world where
  "wNoCredentials =
     fixture Map.empty pushMain (gitPushMain noConfig) (httpAnswer 201 ''201 Created'') noCue"

definition wBuildkite500 :: world where
  "wBuildkite500 =
     fixture envBoth pushMain (gitPushMain noConfig)
       (httpAnswer 500 ''500 Internal Server Error'') noCue"

definition wTekton503 :: world where
  "wTekton503 =
     fixture envTektonOnly pushMain
       (gitPushMain (''tekton: pipeline: '' @ [CHR 0x22] @ ''nightly'' @ [CHR 0x22] @ NL, None))
       (httpAnswer 503 ''503 Service Unavailable'') someCue"

definition wFeature :: world where
  "wFeature =
     fixture envBoth (''abc123'', ''def456'', ''refs/heads/feature'') gitPushFeature
       (httpAnswer 201 ''201 Created'') noCue"

section \<open>Properties\<close>

subsection \<open>Sequencing\<close>

lemma and_then_Val [simp]: "and_then (es, Val x) f = (es @ fst (f x), snd (f x))"
  by (simp add: and_then_def split: prod.splits)

lemma and_then_Exit [simp]: "and_then (es, Exit c) f = (es, Exit c)"
  by (simp add: and_then_def)

lemma and_then_ret [simp]: "and_then (ret x) f = f x"
  by (simp add: ret_def)

lemma seq_emit [simp]: "seq (emit e) k = (e # fst k, snd k)"
  by (simp add: seq_def emit_def)

lemma seq_ret [simp]: "seq (ret ()) k = k"
  by (simp add: seq_def)

lemma seq_LogAttrs [simp]:
  "seq (LogAttrs l msg attrs) k =
     (if l = LevelDebug then k else (Slog l msg attrs # fst k, snd k))"
  by (simp add: LogAttrs_def)

lemma seq_log_Println [simp]: "seq (log_Println xs) k = (Stderr (lnOf xs) # fst k, snd k)"
  by (simp add: log_Println_def)

lemma seq_fmt_Print [simp]: "seq (fmt_Print s) k = (Stdout s # fst k, snd k)"
  by (simp add: fmt_Print_def)

lemma fst_ret [simp]: "fst (ret x) = []"
  by (simp add: ret_def)

lemma snd_ret [simp]: "snd (ret x) = Val x"
  by (simp add: ret_def)

lemma requests_append [simp]: "requests (xs @ ys) = requests xs @ requests ys"
  by (induction xs rule: requests.induct) simp_all

lemma stdout_append [simp]: "stdout (xs @ ys) = stdout xs @ stdout ys"
  by (induction xs rule: stdout.induct) simp_all

subsection \<open>Sanitizing the repository name\<close>

lemma sanitize_concat:
  "sanitize s = concat (map (\<lambda>c. if c = CHR ''.'' then ''-dot-'' else [c]) s)"
  unfolding sanitize_def by (induction s) auto

lemma sanitize_no_dot: "CHR ''.'' \<notin> set (sanitize s)"
  unfolding sanitize_concat by (induction s) auto

lemma sanitize_without_dot: "CHR ''.'' \<notin> set s \<Longrightarrow> sanitize s = s"
  unfolding sanitize_concat by (induction s) auto

text \<open>
  C8. The sanitization is a total function that replaces every \<open>.\<close> by \<open>-dot-\<close> and
  leaves every other character as it is (the result is the input with each character
  mapped on its own); applying it twice is applying it once; and \<open>my.repo.name\<close> becomes
  \<open>my-dot-repo-dot-name\<close>.
\<close>

theorem sanitize_total_idempotent:
  "sanitize s = concat (map (\<lambda>c. if c = CHR ''.'' then ''-dot-'' else [c]) s)
   \<and> sanitize (sanitize s) = sanitize s
   \<and> sanitize ''my.repo.name'' = ''my-dot-repo-dot-name''"
proof (intro conjI)
  show "sanitize s = concat (map (\<lambda>c. if c = CHR ''.'' then ''-dot-'' else [c]) s)"
    by (rule sanitize_concat)
  show "sanitize (sanitize s) = sanitize s"
    by (rule sanitize_without_dot [OF sanitize_no_dot])
  show "sanitize ''my.repo.name'' = ''my-dot-repo-dot-name''"
    by (simp add: sanitize_def)
qed

subsection \<open>The push gate\<close>

lemma foldl_setOption:
  "(foldl (setOption w) m0 js key \<noteq> None)
     = (m0 key \<noteq> None \<or>
        (\<exists>i \<in> set js. fst (Cut (Getenv w (''GIT_PUSH_OPTION_'' @ itoa i)) ''='') = key))"
proof (induction js arbitrary: m0)
  case Nil
  show ?case by simp
next
  case (Cons j js)
  obtain k v f where c: "Cut (Getenv w (''GIT_PUSH_OPTION_'' @ itoa j)) ''='' = (k, v, f)"
    using prod_cases3 by blast
  have s: "setOption w m0 j = m0(k \<mapsto> v)"
    unfolding setOption_def c by simp
  have "fst (Cut (Getenv w (''GIT_PUSH_OPTION_'' @ itoa j)) ''='') = k"
    unfolding c by simp
  then show ?case
    by (simp only: foldl_Cons Cons.IH s) auto
qed

text \<open>
  The map has a key exactly when one of the numbered variables below the count has it
  before its first \<open>=\<close>.
\<close>

lemma pushOptions_has_key:
  "(pushOptions w key \<noteq> None) =
     (\<exists>i < nat (ParseInt (Getenv w ''GIT_PUSH_OPTION_COUNT'')).
        fst (Cut (Getenv w (''GIT_PUSH_OPTION_'' @ itoa i)) ''='') = key)"
  unfolding pushOptions_def Let_def foldl_setOption by auto

text \<open>
  C5. When the push options contain the key \<open>ci.skip\<close>, the hook logs at level Info that
  it skips, does nothing else (no git command, no HTTP request, nothing on standard
  output) and the process ends with status 0.
\<close>

theorem skip_option_ends_the_hook:
  assumes "pushOptions w ''ci.skip'' \<noteq> None"
  shows "main w = ([Slog LevelInfo ''skipping ci'' [(''push.option'', ''ci.skip'')]], 0)
         \<and> requests (fst (main w)) = []"
  using assms by (simp add: main_def run_def)

theorem skip_option_ends_the_hook_witness:
  "pushOptions wSkip ''ci.skip'' \<noteq> None
   \<and> main wSkip = ([Slog LevelInfo ''skipping ci'' [(''push.option'', ''ci.skip'')]], 0)
   \<and> requests (fst (main wSkip)) = []"
proof -
  have h: "pushOptions wSkip ''ci.skip'' \<noteq> None"
    by code_simp
  show ?thesis
    using h skip_option_ends_the_hook [OF h] by simp
qed

subsection \<open>The adapters\<close>

lemma buildkite_without_credentials:
  "Getenv w ''BUILDKITE_ORG_SLUG'' = [] \<or> Getenv w ''BUILDKITE_API_TOKEN'' = [] \<Longrightarrow>
     buildkite w r c b m a e =
       ([], Val ([], Some (if Getenv w ''BUILDKITE_ORG_SLUG'' = []
                           then ''no BUILDKITE_ORG_SLUG found''
                           else ''no BUILDKITE_API_TOKEN found'')))"
  by (auto simp: buildkite_def ret_def Let_def)

lemma tekton_without_endpoint:
  "Getenv w ''TEKTON_TRIGGERS_ENDPOINT'' = [] \<Longrightarrow>
     tekton w r c b m a e cfg = ([], Val ([], Some ''no TEKTON_TRIGGERS_ENDPOINT provided''))"
  by (simp add: tekton_def ret_def)

text \<open>What each adapter sends: nothing, or one request.\<close>

lemma buildkite_requests:
  "map (\<lambda>q. (reqURL q, Inr (reqBody q))) (requests (fst (buildkite w r c b m a e))) =
     (if Getenv w ''BUILDKITE_ORG_SLUG'' \<noteq> [] \<and> Getenv w ''BUILDKITE_API_TOKEN'' \<noteq> []
         \<and> newRequestErr w (buildkiteURL (Getenv w ''BUILDKITE_ORG_SLUG'') (sanitize r)) = None
      then [(buildkiteURL (Getenv w ''BUILDKITE_ORG_SLUG'') (sanitize r),
             Marshal_BuildkitePayload
               \<lparr>Commit = c, Branch = b, Message = m, Author = \<lparr>Name = a, Email = e\<rparr>\<rparr>)]
      else [])"
proof -
  obtain js where js:
    "Marshal_BuildkitePayload
       \<lparr>Commit = c, Branch = b, Message = m, Author = \<lparr>Name = a, Email = e\<rparr>\<rparr> = Inr js"
    by (simp add: Marshal_BuildkitePayload_def)
  show ?thesis
    unfolding buildkite_def Let_def js
    by (auto simp: log_Fatalln_def split: option.splits sum.splits)
qed

lemma tekton_requests:
  "map (\<lambda>q. (reqURL q, Inr (reqBody q))) (requests (fst (tekton w r c b m a e cfg))) =
     (if Getenv w ''TEKTON_TRIGGERS_ENDPOINT'' \<noteq> []
         \<and> newRequestErr w (Getenv w ''TEKTON_TRIGGERS_ENDPOINT'') = None
      then [(Getenv w ''TEKTON_TRIGGERS_ENDPOINT'',
             Marshal_TektonPayload
               \<lparr>TRepo = r, TBranch = b, TCommit = c, TMessage = m, TAuthor = a, TEmail = e,
                TektonPipeline = Tekton_Pipeline cfg\<rparr>)]
      else [])"
proof -
  obtain js where js:
    "Marshal_TektonPayload
       \<lparr>TRepo = r, TBranch = b, TCommit = c, TMessage = m, TAuthor = a, TEmail = e,
        TektonPipeline = Tekton_Pipeline cfg\<rparr> = Inr js"
    by (simp add: Marshal_TektonPayload_def)
  show ?thesis
    unfolding tekton_def Let_def js
    by (auto simp: log_Fatalln_def split: option.splits sum.splits)
qed

text \<open>
  The requests of the dispatcher are those of the buildkite closure, followed by those of
  the tekton closure unless the buildkite closure ended the process.
\<close>

lemma dispatch_requests:
  "requests (fst (dispatch w r c b m a e cfg)) =
     requests (fst (buildkite w r c b m a e)) @
     (case snd (buildkite w r c b m a e) of
        Val v \<Rightarrow> requests (fst (tekton w r c b m a e cfg))
      | Exit n \<Rightarrow> [])"
proof -
  obtain bes bo where bk: "buildkite w r c b m a e = (bes, bo)"
    by (cases "buildkite w r c b m a e")
  obtain tes to where tk: "tekton w r c b m a e cfg = (tes, to)"
    by (cases "tekton w r c b m a e cfg")
  show ?thesis
    unfolding dispatch_def bk tk
    by (cases bo; cases to) (auto split: option.splits)
qed

text \<open>
  The events and the outcome of the dispatcher, closure by closure: the events of the
  buildkite closure; unless it ended the process, the record of its error, if any, and
  the events of the tekton closure; unless that ended the process, the record of its
  error, if any, and the four writes of the report.
\<close>

lemma dispatch_events:
  "fst (dispatch w r c b m a e cfg) =
     fst (buildkite w r c b m a e) @
     (case snd (buildkite w r c b m a e) of
        Exit n \<Rightarrow> []
      | Val (bresp, berr) \<Rightarrow>
          (case berr of
             Some be \<Rightarrow> [Slog LevelError ''send to buildkite'' [(''error'', be)]]
           | None \<Rightarrow> [])
          @ fst (tekton w r c b m a e cfg)
          @ (case snd (tekton w r c b m a e cfg) of
               Exit n \<Rightarrow> []
             | Val (tresp, terr) \<Rightarrow>
                 (case terr of
                    Some te \<Rightarrow> [Slog LevelError ''send to tekton'' [(''error'', te)]]
                  | None \<Rightarrow> [])
                 @ [Stdout NL,
                    Stdout (TAB @ ''buildkite: ''
                            @ (case berr of Some be \<Rightarrow> be | None \<Rightarrow> bresp) @ NL),
                    Stdout (TAB @ ''tekton: '' @ tresp @ NL),
                    Stdout NL]))"
proof -
  obtain bes bo where bk: "buildkite w r c b m a e = (bes, bo)"
    by (cases "buildkite w r c b m a e")
  obtain tes to where tk: "tekton w r c b m a e cfg = (tes, to)"
    by (cases "tekton w r c b m a e cfg")
  show ?thesis
    unfolding dispatch_def bk tk
    by (cases bo; cases to) (auto split: option.splits)
qed

lemma dispatch_outcome:
  "snd (dispatch w r c b m a e cfg) =
     (case snd (buildkite w r c b m a e) of
        Exit n \<Rightarrow> Exit n
      | Val bv \<Rightarrow>
          (case snd (tekton w r c b m a e cfg) of
             Exit n \<Rightarrow> Exit n
           | Val tv \<Rightarrow> Val None))"
proof -
  obtain bes bo where bk: "buildkite w r c b m a e = (bes, bo)"
    by (cases "buildkite w r c b m a e")
  obtain tes to where tk: "tekton w r c b m a e cfg = (tes, to)"
    by (cases "tekton w r c b m a e cfg")
  show ?thesis
    unfolding dispatch_def bk tk
    by (cases bo; cases to) (auto split: option.splits)
qed

subsection \<open>From the input line to the dispatcher\<close>

lemma readCIConfig_result:
  "\<exists>cfg err. readCIConfig w newRev =
      ([Exec [''git'', ''cat-file'', newRev @ '':ci.cue'']], Val (cfg, err))"
  by (auto simp: readCIConfig_def ret_def split: prod.splits option.splits sum.splits)

lemma readCIConfig_failure:
  assumes "snd (git w [''cat-file'', newRev @ '':ci.cue'']) \<noteq> None
           \<or> (\<exists>e. cueDecode w (fst (git w [''cat-file'', newRev @ '':ci.cue''])) = Inl e)"
  shows "\<exists>e. readCIConfig w newRev =
           ([Exec [''git'', ''cat-file'', newRev @ '':ci.cue'']],
            Val (\<lparr>Tekton_Pipeline = []\<rparr>, Some e))"
  using assms
  by (cases "git w [''cat-file'', newRev @ '':ci.cue'']")
     (auto simp: readCIConfig_def ret_def split: option.splits sum.splits)

lemma mustExecGit_ok:
  "git w args = (out, None) \<Longrightarrow> mustExecGit w args = ([Exec (''git'' # args)], Val (TrimSpace out))"
  by (simp add: mustExecGit_def ret_def)

text \<open>
  When the skip key is absent, the working directory and the input line are read and the
  four git commands succeed, \<open>run\<close> is those four commands, the reading of the
  configuration, a warning if that failed, and the dispatcher on the values extracted.
\<close>

lemma run_reaches_dispatch:
  assumes "pushOptions w ''ci.skip'' = None"
    and "getwd w = Inr dir"
    and "scanln w = Inr (oldRev, newRev, refName)"
    and "git w [''rev-parse'', ''--abbrev-ref'', refName] = (o1, None)"
    and "git w [''log'', ''-1'', ''HEAD'', ''--format=%B'', ''--''] = (o2, None)"
    and "git w [''log'', ''-1'', ''HEAD'', ''--format=%an'', ''--''] = (o3, None)"
    and "git w [''log'', ''-1'', ''HEAD'', ''--format=%ae'', ''--''] = (o4, None)"
    and "readCIConfig w newRev = (ces, Val (cfg, err))"
  shows "run w =
     ([Exec [''git'', ''rev-parse'', ''--abbrev-ref'', refName],
       Exec [''git'', ''log'', ''-1'', ''HEAD'', ''--format=%B'', ''--''],
       Exec [''git'', ''log'', ''-1'', ''HEAD'', ''--format=%an'', ''--''],
       Exec [''git'', ''log'', ''-1'', ''HEAD'', ''--format=%ae'', ''--'']]
      @ ces
      @ (case err of
           Some e \<Rightarrow> [Slog LevelWarn ''failed to get ci.cue'' [(''error'', e)]]
         | None \<Rightarrow> [])
      @ fst (dispatch w (TrimSuffix (Base dir) ''.git'') newRev
               (TrimSpace o1) (TrimSpace o2) (TrimSpace o3) (TrimSpace o4) cfg),
      snd (dispatch w (TrimSuffix (Base dir) ''.git'') newRev
             (TrimSpace o1) (TrimSpace o2) (TrimSpace o3) (TrimSpace o4) cfg))"
  unfolding run_def Let_def
  by (simp add: assms mustExecGit_ok split: option.splits)

lemma run_requests:
  assumes "pushOptions w ''ci.skip'' = None"
    and "getwd w = Inr dir"
    and "scanln w = Inr (oldRev, newRev, refName)"
    and "git w [''rev-parse'', ''--abbrev-ref'', refName] = (o1, None)"
    and "git w [''log'', ''-1'', ''HEAD'', ''--format=%B'', ''--''] = (o2, None)"
    and "git w [''log'', ''-1'', ''HEAD'', ''--format=%an'', ''--''] = (o3, None)"
    and "git w [''log'', ''-1'', ''HEAD'', ''--format=%ae'', ''--''] = (o4, None)"
    and "readCIConfig w newRev = (ces, Val (cfg, err))"
  shows "requests (fst (run w)) =
     requests (fst (dispatch w (TrimSuffix (Base dir) ''.git'') newRev
                      (TrimSpace o1) (TrimSpace o2) (TrimSpace o3) (TrimSpace o4) cfg))"
proof -
  obtain cfg' err' where
    "readCIConfig w newRev = ([Exec [''git'', ''cat-file'', newRev @ '':ci.cue'']], Val (cfg', err'))"
    using readCIConfig_result by blast
  with assms(8) have ces: "ces = [Exec [''git'', ''cat-file'', newRev @ '':ci.cue'']]"
    by simp
  show ?thesis
    unfolding run_reaches_dispatch [OF assms] ces
    by (simp split: option.splits)
qed

subsection \<open>Failure containment\<close>

text \<open>
  C6. On a run that gets to the adapters (no skip key, the working directory and the
  input line read, the four git commands succeed): if a credential of the REST adapter
  is absent, its closure returns an error without any event, so without a request, and
  the requests of the run are those of the webhook adapter, one request to its endpoint
  when that is set and accepted; if the endpoint of the webhook adapter is absent, its
  closure returns an error without any event and the requests of the run are those of
  the REST adapter, one request when its credentials are set and its URL accepted.
\<close>

theorem credential_absence_is_contained:
  assumes "pushOptions w ''ci.skip'' = None"
    and "getwd w = Inr dir"
    and "scanln w = Inr (oldRev, newRev, refName)"
    and "git w [''rev-parse'', ''--abbrev-ref'', refName] = (o1, None)"
    and "git w [''log'', ''-1'', ''HEAD'', ''--format=%B'', ''--''] = (o2, None)"
    and "git w [''log'', ''-1'', ''HEAD'', ''--format=%an'', ''--''] = (o3, None)"
    and "git w [''log'', ''-1'', ''HEAD'', ''--format=%ae'', ''--''] = (o4, None)"
    and "readCIConfig w newRev = (ces, Val (cfg, err))"
    and "repo = TrimSuffix (Base dir) ''.git''"
    and "branch = TrimSpace o1" and "message = TrimSpace o2"
    and "author = TrimSpace o3" and "email = TrimSpace o4"
  shows
    "(Getenv w ''BUILDKITE_ORG_SLUG'' = [] \<or> Getenv w ''BUILDKITE_API_TOKEN'' = [] \<longrightarrow>
        (\<exists>e. buildkite w repo newRev branch message author email = ([], Val ([], Some e)))
        \<and> requests (fst (run w)) =
            requests (fst (tekton w repo newRev branch message author email cfg))
        \<and> map (\<lambda>q. (reqURL q, Inr (reqBody q))) (requests (fst (run w))) =
            (if Getenv w ''TEKTON_TRIGGERS_ENDPOINT'' \<noteq> []
                \<and> newRequestErr w (Getenv w ''TEKTON_TRIGGERS_ENDPOINT'') = None
             then [(Getenv w ''TEKTON_TRIGGERS_ENDPOINT'',
                    Marshal_TektonPayload
                      \<lparr>TRepo = repo, TBranch = branch, TCommit = newRev, TMessage = message,
                       TAuthor = author, TEmail = email,
                       TektonPipeline = Tekton_Pipeline cfg\<rparr>)]
             else []))
     \<and> (Getenv w ''TEKTON_TRIGGERS_ENDPOINT'' = [] \<longrightarrow>
        (\<exists>e. tekton w repo newRev branch message author email cfg = ([], Val ([], Some e)))
        \<and> requests (fst (run w)) =
            requests (fst (buildkite w repo newRev branch message author email))
        \<and> map (\<lambda>q. (reqURL q, Inr (reqBody q))) (requests (fst (run w))) =
            (if Getenv w ''BUILDKITE_ORG_SLUG'' \<noteq> [] \<and> Getenv w ''BUILDKITE_API_TOKEN'' \<noteq> []
                \<and> newRequestErr w (buildkiteURL (Getenv w ''BUILDKITE_ORG_SLUG'') (sanitize repo))
                    = None
             then [(buildkiteURL (Getenv w ''BUILDKITE_ORG_SLUG'') (sanitize repo),
                    Marshal_BuildkitePayload
                      \<lparr>Commit = newRev, Branch = branch, Message = message,
                       Author = \<lparr>Name = author, Email = email\<rparr>\<rparr>)]
             else []))"
proof -
  have rq: "requests (fst (run w)) =
              requests (fst (dispatch w repo newRev branch message author email cfg))"
    unfolding assms(9-13) by (rule run_requests [OF assms(1-8)])
  have left: "requests (fst (run w)) =
                requests (fst (tekton w repo newRev branch message author email cfg))"
    if "Getenv w ''BUILDKITE_ORG_SLUG'' = [] \<or> Getenv w ''BUILDKITE_API_TOKEN'' = []"
    unfolding rq dispatch_requests buildkite_without_credentials [OF that] by simp
  have right: "requests (fst (run w)) =
                 requests (fst (buildkite w repo newRev branch message author email))"
    if "Getenv w ''TEKTON_TRIGGERS_ENDPOINT'' = []"
    unfolding rq dispatch_requests tekton_without_endpoint [OF that]
    by (simp split: outcome.splits)
  show ?thesis
  proof (intro conjI impI)
    assume h: "Getenv w ''BUILDKITE_ORG_SLUG'' = [] \<or> Getenv w ''BUILDKITE_API_TOKEN'' = []"
    show "\<exists>e. buildkite w repo newRev branch message author email = ([], Val ([], Some e))"
      using buildkite_without_credentials [OF h] by blast
    show "requests (fst (run w)) =
            requests (fst (tekton w repo newRev branch message author email cfg))"
      by (rule left [OF h])
    show "map (\<lambda>q. (reqURL q, Inr (reqBody q))) (requests (fst (run w))) =
            (if Getenv w ''TEKTON_TRIGGERS_ENDPOINT'' \<noteq> []
                \<and> newRequestErr w (Getenv w ''TEKTON_TRIGGERS_ENDPOINT'') = None
             then [(Getenv w ''TEKTON_TRIGGERS_ENDPOINT'',
                    Marshal_TektonPayload
                      \<lparr>TRepo = repo, TBranch = branch, TCommit = newRev, TMessage = message,
                       TAuthor = author, TEmail = email,
                       TektonPipeline = Tekton_Pipeline cfg\<rparr>)]
             else [])"
      unfolding left [OF h] by (rule tekton_requests)
  next
    assume h: "Getenv w ''TEKTON_TRIGGERS_ENDPOINT'' = []"
    show "\<exists>e. tekton w repo newRev branch message author email cfg = ([], Val ([], Some e))"
      using tekton_without_endpoint [OF h] by blast
    show "requests (fst (run w)) =
            requests (fst (buildkite w repo newRev branch message author email))"
      by (rule right [OF h])
    show "map (\<lambda>q. (reqURL q, Inr (reqBody q))) (requests (fst (run w))) =
            (if Getenv w ''BUILDKITE_ORG_SLUG'' \<noteq> [] \<and> Getenv w ''BUILDKITE_API_TOKEN'' \<noteq> []
                \<and> newRequestErr w (buildkiteURL (Getenv w ''BUILDKITE_ORG_SLUG'') (sanitize repo))
                    = None
             then [(buildkiteURL (Getenv w ''BUILDKITE_ORG_SLUG'') (sanitize repo),
                    Marshal_BuildkitePayload
                      \<lparr>Commit = newRev, Branch = branch, Message = message,
                       Author = \<lparr>Name = author, Email = email\<rparr>\<rparr>)]
             else [])"
      unfolding right [OF h] by (rule buildkite_requests)
  qed
qed

subsection \<open>The concrete worlds\<close>

lemma fixture_inputs [simp]:
  "environ (fixture env line answers http cue) = env"
  "getwd (fixture env line answers http cue) = Inr ''/srv/git/my.repo.git''"
  "scanln (fixture env line answers http cue) = Inr line"
  "git (fixture env line answers http cue) = answers"
  "newRequestErr (fixture env line answers http cue) = (\<lambda>u. None)"
  "httpDo (fixture env line answers http cue) = http"
  "cueDecode (fixture env line answers http cue) = cue"
  by (simp_all add: fixture_def)

lemma gitPushMain_answers:
  "gitPushMain cat [''rev-parse'', ''--abbrev-ref'', ''refs/heads/main''] = (''main'' @ NL, None)"
  "gitPushMain cat [''log'', ''-1'', ''HEAD'', ''--format=%B'', ''--'']
     = (''fix bug'' @ NL @ NL, None)"
  "gitPushMain cat [''log'', ''-1'', ''HEAD'', ''--format=%an'', ''--''] = (''Jane Doe'' @ NL, None)"
  "gitPushMain cat [''log'', ''-1'', ''HEAD'', ''--format=%ae'', ''--'']
     = (''jane@example.com'' @ NL, None)"
  "gitPushMain cat [''cat-file'', ''abc123:ci.cue''] = cat"
  by (simp_all add: gitPushMain_def)

lemma fixture_no_skip:
  "pushOptions (fixture envBoth line answers http cue) ''ci.skip'' = None"
  "pushOptions (fixture envTektonOnly line answers http cue) ''ci.skip'' = None"
  "pushOptions (fixture envBuildkiteOnly line answers http cue) ''ci.skip'' = None"
  "pushOptions (fixture Map.empty line answers http cue) ''ci.skip'' = None"
  by (simp_all add: pushOptions_def Getenv_def ParseInt_def envBoth_def envTektonOnly_def
        envBuildkiteOnly_def)

lemma fixture_values:
  "TrimSuffix (Base ''/srv/git/my.repo.git'') ''.git'' = ''my.repo''"
  "TrimSpace (''main'' @ NL) = ''main''"
  "TrimSpace (''fix bug'' @ NL @ NL) = ''fix bug''"
  "TrimSpace (''Jane Doe'' @ NL) = ''Jane Doe''"
  "TrimSpace (''jane@example.com'' @ NL) = ''jane@example.com''"
  by code_simp+

lemma fixture_no_config:
  "readCIConfig (fixture env line (gitPushMain noConfig) http cue) ''abc123'' =
     ([Exec [''git'', ''cat-file'', ''abc123:ci.cue'']],
      Val (\<lparr>Tekton_Pipeline = []\<rparr>, Some ''git cat-file abc123:ci.cue: exit status 128''))"
  by (simp add: readCIConfig_def gitPushMain_answers noConfig_def ret_def)

lemma fixture_json:
  \<open>Marshal_TektonPayload
     \<lparr>TRepo = ''my.repo'', TBranch = ''main'', TCommit = ''abc123'', TMessage = ''fix bug'',
      TAuthor = ''Jane Doe'', TEmail = ''jane@example.com'', TektonPipeline = []\<rparr> =
   Inr (''{"repo":"my.repo","branch":"main","commit":"abc123","message":"fix bug",'' @
        ''"author":"Jane Doe","email":"jane@example.com"}'')\<close>
  \<open>Marshal_BuildkitePayload
     \<lparr>Commit = ''abc123'', Branch = ''main'', Message = ''fix bug'',
      Author = \<lparr>Name = ''Jane Doe'', Email = ''jane@example.com''\<rparr>\<rparr> =
   Inr (''{"commit":"abc123","branch":"main","message":"fix bug",'' @
        ''"author":{"name":"Jane Doe","email":"jane@example.com"}}'')\<close>
  \<open>buildkiteURL ''acme'' (sanitize ''my.repo'') =
     ''https://api.buildkite.com/v2/organizations/acme/pipelines/my-dot-repo/builds''\<close>
  by code_simp+

text \<open>The inputs of a world in which \<^verbatim>\<open>abc123\<close> was pushed to \<^verbatim>\<open>main\<close>.\<close>

lemma pushMain_world:
  fixes env cat http cue
  defines "W \<equiv> fixture env pushMain (gitPushMain cat) http cue"
  shows "getwd W = Inr ''/srv/git/my.repo.git''"
    and "scanln W = Inr (''000000'', ''abc123'', ''refs/heads/main'')"
    and "git W [''rev-parse'', ''--abbrev-ref'', ''refs/heads/main''] = (''main'' @ NL, None)"
    and "git W [''log'', ''-1'', ''HEAD'', ''--format=%B'', ''--''] = (''fix bug'' @ NL @ NL, None)"
    and "git W [''log'', ''-1'', ''HEAD'', ''--format=%an'', ''--''] = (''Jane Doe'' @ NL, None)"
    and "git W [''log'', ''-1'', ''HEAD'', ''--format=%ae'', ''--'']
           = (''jane@example.com'' @ NL, None)"
    and "git W [''cat-file'', ''abc123:ci.cue''] = cat"
  unfolding W_def by (simp_all add: pushMain_def gitPushMain_answers)

theorem credential_absence_is_contained_witness:
  \<open>Getenv wTektonOnly ''BUILDKITE_ORG_SLUG'' = []
   \<and> buildkite wTektonOnly ''my.repo'' ''abc123'' ''main'' ''fix bug'' ''Jane Doe''
        ''jane@example.com'' = ([], Val ([], Some ''no BUILDKITE_ORG_SLUG found''))
   \<and> map (\<lambda>q. (reqURL q, Inr (reqBody q) :: error + string))
        (requests (fst (run wTektonOnly))) =
       [(''http://el.ci.svc:8080'',
         Inr (''{"repo":"my.repo","branch":"main","commit":"abc123","message":"fix bug",'' @
              ''"author":"Jane Doe","email":"jane@example.com"}''))]
   \<and> Getenv wBuildkiteOnly ''TEKTON_TRIGGERS_ENDPOINT'' = []
   \<and> tekton wBuildkiteOnly ''my.repo'' ''abc123'' ''main'' ''fix bug'' ''Jane Doe''
        ''jane@example.com'' \<lparr>Tekton_Pipeline = []\<rparr> =
       ([], Val ([], Some ''no TEKTON_TRIGGERS_ENDPOINT provided''))
   \<and> map (\<lambda>q. (reqURL q, Inr (reqBody q) :: error + string))
        (requests (fst (run wBuildkiteOnly))) =
       [(''https://api.buildkite.com/v2/organizations/acme/pipelines/my-dot-repo/builds'',
         Inr (''{"commit":"abc123","branch":"main","message":"fix bug",'' @
              ''"author":{"name":"Jane Doe","email":"jane@example.com"}}''))]\<close>
proof -
  have env: "Getenv wTektonOnly ''BUILDKITE_ORG_SLUG'' = []"
    "Getenv wTektonOnly ''TEKTON_TRIGGERS_ENDPOINT'' = ''http://el.ci.svc:8080''"
    "Getenv wBuildkiteOnly ''TEKTON_TRIGGERS_ENDPOINT'' = []"
    "Getenv wBuildkiteOnly ''BUILDKITE_ORG_SLUG'' = ''acme''"
    "Getenv wBuildkiteOnly ''BUILDKITE_API_TOKEN'' = ''s3cr3t''"
    "newRequestErr wTektonOnly = (\<lambda>u. None)" "newRequestErr wBuildkiteOnly = (\<lambda>u. None)"
    by (simp_all add: Getenv_def wTektonOnly_def wBuildkiteOnly_def
          envTektonOnly_def envBuildkiteOnly_def)
  note js = fixture_json
  note t = pushMain_world [of envTektonOnly noConfig "httpAnswer 201 ''201 Created''" noCue,
      folded wTektonOnly_def]
  note b = pushMain_world [of envBuildkiteOnly noConfig "httpAnswer 201 ''201 Created''" noCue,
      folded wBuildkiteOnly_def]
  have ts: "pushOptions wTektonOnly ''ci.skip'' = None"
    and bs: "pushOptions wBuildkiteOnly ''ci.skip'' = None"
    unfolding wTektonOnly_def wBuildkiteOnly_def by (rule fixture_no_skip)+
  have tc: "readCIConfig wTektonOnly ''abc123'' =
              ([Exec [''git'', ''cat-file'', ''abc123:ci.cue'']],
               Val (\<lparr>Tekton_Pipeline = []\<rparr>, Some ''git cat-file abc123:ci.cue: exit status 128''))"
    and bc: "readCIConfig wBuildkiteOnly ''abc123'' =
              ([Exec [''git'', ''cat-file'', ''abc123:ci.cue'']],
               Val (\<lparr>Tekton_Pipeline = []\<rparr>, Some ''git cat-file abc123:ci.cue: exit status 128''))"
    unfolding wTektonOnly_def wBuildkiteOnly_def by (rule fixture_no_config)+
  note T = credential_absence_is_contained
    [OF ts t(1-6) tc refl refl refl refl refl, unfolded fixture_values]
  note B = credential_absence_is_contained
    [OF bs b(1-6) bc refl refl refl refl refl, unfolded fixture_values]
  have T3: "map (\<lambda>q. (reqURL q, Inr (reqBody q) :: error + string))
              (requests (fst (run wTektonOnly))) =
            [(''http://el.ci.svc:8080'',
              Marshal_TektonPayload
                \<lparr>TRepo = ''my.repo'', TBranch = ''main'', TCommit = ''abc123'',
                 TMessage = ''fix bug'', TAuthor = ''Jane Doe'', TEmail = ''jane@example.com'',
                 TektonPipeline = []\<rparr>)]"
  proof -
    have "Getenv wTektonOnly ''BUILDKITE_ORG_SLUG'' = []
          \<or> Getenv wTektonOnly ''BUILDKITE_API_TOKEN'' = []"
      by (simp add: env)
    with T have
      "map (\<lambda>q. (reqURL q, Inr (reqBody q) :: error + string))
         (requests (fst (run wTektonOnly))) =
       (if Getenv wTektonOnly ''TEKTON_TRIGGERS_ENDPOINT'' \<noteq> []
           \<and> newRequestErr wTektonOnly (Getenv wTektonOnly ''TEKTON_TRIGGERS_ENDPOINT'') = None
        then [(Getenv wTektonOnly ''TEKTON_TRIGGERS_ENDPOINT'',
               Marshal_TektonPayload
                 \<lparr>TRepo = ''my.repo'', TBranch = ''main'', TCommit = ''abc123'',
                  TMessage = ''fix bug'', TAuthor = ''Jane Doe'',
                  TEmail = ''jane@example.com'',
                  TektonPipeline = Tekton_Pipeline \<lparr>Tekton_Pipeline = []\<rparr>\<rparr>)]
        else [])"
      by blast
    then show ?thesis
      by (simp add: env)
  qed
  have B3: "map (\<lambda>q. (reqURL q, Inr (reqBody q) :: error + string))
              (requests (fst (run wBuildkiteOnly))) =
            [(buildkiteURL ''acme'' (sanitize ''my.repo''),
              Marshal_BuildkitePayload
                \<lparr>Commit = ''abc123'', Branch = ''main'', Message = ''fix bug'',
                 Author = \<lparr>Name = ''Jane Doe'', Email = ''jane@example.com''\<rparr>\<rparr>)]"
  proof -
    have "Getenv wBuildkiteOnly ''TEKTON_TRIGGERS_ENDPOINT'' = []"
      by (simp add: env)
    with B have
      "map (\<lambda>q. (reqURL q, Inr (reqBody q) :: error + string))
         (requests (fst (run wBuildkiteOnly))) =
       (if Getenv wBuildkiteOnly ''BUILDKITE_ORG_SLUG'' \<noteq> []
           \<and> Getenv wBuildkiteOnly ''BUILDKITE_API_TOKEN'' \<noteq> []
           \<and> newRequestErr wBuildkiteOnly
                (buildkiteURL (Getenv wBuildkiteOnly ''BUILDKITE_ORG_SLUG'') (sanitize ''my.repo''))
               = None
        then [(buildkiteURL (Getenv wBuildkiteOnly ''BUILDKITE_ORG_SLUG'') (sanitize ''my.repo''),
               Marshal_BuildkitePayload
                 \<lparr>Commit = ''abc123'', Branch = ''main'', Message = ''fix bug'',
                  Author = \<lparr>Name = ''Jane Doe'', Email = ''jane@example.com''\<rparr>\<rparr>)]
        else [])"
      by blast
    then show ?thesis
      by (simp add: env)
  qed
  show ?thesis
    unfolding T3 B3 js
    by (simp add: env buildkite_without_credentials tekton_without_endpoint)
qed

subsection \<open>The configuration file\<close>

text \<open>
  C7. On a run that gets to the configuration (no skip key, the working directory and the
  input line read, the four git commands succeed): if \<^verbatim>\<open>git cat-file\<close> fails on
  \<^verbatim>\<open>ci.cue\<close> at the new revision, or its output does not decode, then \<open>readCIConfig\<close>
  returns the zero \<open>CIConfig\<close> with an error and does not end the process; \<open>run\<close> logs
  that error at level Warn and goes on to the adapters. What follows the warning is the
  buildkite closure on the values extracted, then, unless that closure ended the process
  on a status outside 200 to 299, the record of its error, if any, and the tekton closure
  on the zero configuration, then, unless that closure ended the process, the record of
  its error, if any, and the report; a run in which neither closure ends the process
  returns without an error. The requests of the run are the request of the REST adapter,
  sent when its credentials are set and its URL is accepted, and the request of the
  webhook adapter, sent when its endpoint is set and accepted, whose payload has the
  empty pipeline name.
\<close>

theorem config_failure_is_soft:
  assumes "pushOptions w ''ci.skip'' = None"
    and "getwd w = Inr dir"
    and "scanln w = Inr (oldRev, newRev, refName)"
    and "git w [''rev-parse'', ''--abbrev-ref'', refName] = (o1, None)"
    and "git w [''log'', ''-1'', ''HEAD'', ''--format=%B'', ''--''] = (o2, None)"
    and "git w [''log'', ''-1'', ''HEAD'', ''--format=%an'', ''--''] = (o3, None)"
    and "git w [''log'', ''-1'', ''HEAD'', ''--format=%ae'', ''--''] = (o4, None)"
    and "snd (git w [''cat-file'', newRev @ '':ci.cue'']) \<noteq> None
         \<or> (\<exists>e. cueDecode w (fst (git w [''cat-file'', newRev @ '':ci.cue''])) = Inl e)"
    and "repo = TrimSuffix (Base dir) ''.git''"
    and "branch = TrimSpace o1" and "message = TrimSpace o2"
    and "author = TrimSpace o3" and "email = TrimSpace o4"
  shows "\<exists>e.
     readCIConfig w newRev =
       ([Exec [''git'', ''cat-file'', newRev @ '':ci.cue'']],
        Val (\<lparr>Tekton_Pipeline = []\<rparr>, Some e))
     \<and> fst (run w) =
       [Exec [''git'', ''rev-parse'', ''--abbrev-ref'', refName],
        Exec [''git'', ''log'', ''-1'', ''HEAD'', ''--format=%B'', ''--''],
        Exec [''git'', ''log'', ''-1'', ''HEAD'', ''--format=%an'', ''--''],
        Exec [''git'', ''log'', ''-1'', ''HEAD'', ''--format=%ae'', ''--''],
        Exec [''git'', ''cat-file'', newRev @ '':ci.cue''],
        Slog LevelWarn ''failed to get ci.cue'' [(''error'', e)]]
       @ fst (buildkite w repo newRev branch message author email)
       @ (case snd (buildkite w repo newRev branch message author email) of
            Exit n \<Rightarrow> []
          | Val (bresp, berr) \<Rightarrow>
              (case berr of
                 Some be \<Rightarrow> [Slog LevelError ''send to buildkite'' [(''error'', be)]]
               | None \<Rightarrow> [])
              @ fst (tekton w repo newRev branch message author email \<lparr>Tekton_Pipeline = []\<rparr>)
              @ (case snd (tekton w repo newRev branch message author email
                             \<lparr>Tekton_Pipeline = []\<rparr>) of
                   Exit n \<Rightarrow> []
                 | Val (tresp, terr) \<Rightarrow>
                     (case terr of
                        Some te \<Rightarrow> [Slog LevelError ''send to tekton'' [(''error'', te)]]
                      | None \<Rightarrow> [])
                     @ [Stdout NL,
                        Stdout (TAB @ ''buildkite: ''
                                @ (case berr of Some be \<Rightarrow> be | None \<Rightarrow> bresp) @ NL),
                        Stdout (TAB @ ''tekton: '' @ tresp @ NL),
                        Stdout NL]))
     \<and> snd (run w) =
       (case snd (buildkite w repo newRev branch message author email) of
          Exit n \<Rightarrow> Exit n
        | Val bv \<Rightarrow>
            (case snd (tekton w repo newRev branch message author email
                         \<lparr>Tekton_Pipeline = []\<rparr>) of
               Exit n \<Rightarrow> Exit n
             | Val tv \<Rightarrow> Val None))
     \<and> map (\<lambda>q. (reqURL q, Inr (reqBody q))) (requests (fst (run w))) =
       (if Getenv w ''BUILDKITE_ORG_SLUG'' \<noteq> [] \<and> Getenv w ''BUILDKITE_API_TOKEN'' \<noteq> []
           \<and> newRequestErr w (buildkiteURL (Getenv w ''BUILDKITE_ORG_SLUG'') (sanitize repo))
               = None
        then [(buildkiteURL (Getenv w ''BUILDKITE_ORG_SLUG'') (sanitize repo),
               Marshal_BuildkitePayload
                 \<lparr>Commit = newRev, Branch = branch, Message = message,
                  Author = \<lparr>Name = author, Email = email\<rparr>\<rparr>)]
        else [])
       @ (case snd (buildkite w repo newRev branch message author email) of
            Val v \<Rightarrow>
              if Getenv w ''TEKTON_TRIGGERS_ENDPOINT'' \<noteq> []
                 \<and> newRequestErr w (Getenv w ''TEKTON_TRIGGERS_ENDPOINT'') = None
              then [(Getenv w ''TEKTON_TRIGGERS_ENDPOINT'',
                     Marshal_TektonPayload
                       \<lparr>TRepo = repo, TBranch = branch, TCommit = newRev, TMessage = message,
                        TAuthor = author, TEmail = email, TektonPipeline = []\<rparr>)]
              else []
          | Exit n \<Rightarrow> [])"
proof -
  obtain e where e:
    "readCIConfig w newRev =
       ([Exec [''git'', ''cat-file'', newRev @ '':ci.cue'']],
        Val (\<lparr>Tekton_Pipeline = []\<rparr>, Some e))"
    using readCIConfig_failure [OF assms(8)] by blast
  have r: "run w =
       ([Exec [''git'', ''rev-parse'', ''--abbrev-ref'', refName],
         Exec [''git'', ''log'', ''-1'', ''HEAD'', ''--format=%B'', ''--''],
         Exec [''git'', ''log'', ''-1'', ''HEAD'', ''--format=%an'', ''--''],
         Exec [''git'', ''log'', ''-1'', ''HEAD'', ''--format=%ae'', ''--''],
         Exec [''git'', ''cat-file'', newRev @ '':ci.cue''],
         Slog LevelWarn ''failed to get ci.cue'' [(''error'', e)]]
        @ fst (dispatch w repo newRev branch message author email \<lparr>Tekton_Pipeline = []\<rparr>),
        snd (dispatch w repo newRev branch message author email \<lparr>Tekton_Pipeline = []\<rparr>))"
    unfolding run_reaches_dispatch [OF assms(1-7) e] assms(9-13) by simp
  have ev: "fst (run w) =
       [Exec [''git'', ''rev-parse'', ''--abbrev-ref'', refName],
        Exec [''git'', ''log'', ''-1'', ''HEAD'', ''--format=%B'', ''--''],
        Exec [''git'', ''log'', ''-1'', ''HEAD'', ''--format=%an'', ''--''],
        Exec [''git'', ''log'', ''-1'', ''HEAD'', ''--format=%ae'', ''--''],
        Exec [''git'', ''cat-file'', newRev @ '':ci.cue''],
        Slog LevelWarn ''failed to get ci.cue'' [(''error'', e)]]
       @ fst (dispatch w repo newRev branch message author email \<lparr>Tekton_Pipeline = []\<rparr>)"
    unfolding r by (rule fst_conv)
  have out: "snd (run w) =
       snd (dispatch w repo newRev branch message author email \<lparr>Tekton_Pipeline = []\<rparr>)"
    unfolding r by (rule snd_conv)
  have "requests (fst (run w)) =
          requests (fst (dispatch w repo newRev branch message author email
                           \<lparr>Tekton_Pipeline = []\<rparr>))"
    unfolding assms(9-13) by (rule run_requests [OF assms(1-7) e])
  then have rq: "requests (fst (run w)) =
      requests (fst (buildkite w repo newRev branch message author email)) @
      (case snd (buildkite w repo newRev branch message author email) of
         Val v \<Rightarrow> requests (fst (tekton w repo newRev branch message author email
                                      \<lparr>Tekton_Pipeline = []\<rparr>))
       | Exit n \<Rightarrow> [])"
    by (simp only: dispatch_requests)
  have rqs: "map (\<lambda>q. (reqURL q, Inr (reqBody q))) (requests (fst (run w))) =
       (if Getenv w ''BUILDKITE_ORG_SLUG'' \<noteq> [] \<and> Getenv w ''BUILDKITE_API_TOKEN'' \<noteq> []
           \<and> newRequestErr w (buildkiteURL (Getenv w ''BUILDKITE_ORG_SLUG'') (sanitize repo))
               = None
        then [(buildkiteURL (Getenv w ''BUILDKITE_ORG_SLUG'') (sanitize repo),
               Marshal_BuildkitePayload
                 \<lparr>Commit = newRev, Branch = branch, Message = message,
                  Author = \<lparr>Name = author, Email = email\<rparr>\<rparr>)]
        else [])
       @ (case snd (buildkite w repo newRev branch message author email) of
            Val v \<Rightarrow>
              if Getenv w ''TEKTON_TRIGGERS_ENDPOINT'' \<noteq> []
                 \<and> newRequestErr w (Getenv w ''TEKTON_TRIGGERS_ENDPOINT'') = None
              then [(Getenv w ''TEKTON_TRIGGERS_ENDPOINT'',
                     Marshal_TektonPayload
                       \<lparr>TRepo = repo, TBranch = branch, TCommit = newRev, TMessage = message,
                        TAuthor = author, TEmail = email, TektonPipeline = []\<rparr>)]
              else []
          | Exit n \<Rightarrow> [])"
  proof (cases "snd (buildkite w repo newRev branch message author email)")
    case (Val v)
    show ?thesis
      unfolding rq Val outcome.case map_append buildkite_requests tekton_requests
      by simp
  next
    case (Exit n)
    show ?thesis
      unfolding rq Exit outcome.case map_append buildkite_requests by simp
  qed
  show ?thesis
    using e ev [unfolded dispatch_events] out [unfolded dispatch_outcome] rqs
    by blast
qed

theorem config_failure_is_soft_witness:
  \<open>snd (git wBoth [''cat-file'', ''abc123'' @ '':ci.cue'']) \<noteq> None
   \<and> (\<exists>e. readCIConfig wBoth ''abc123'' =
         ([Exec [''git'', ''cat-file'', ''abc123'' @ '':ci.cue'']],
          Val (\<lparr>Tekton_Pipeline = []\<rparr>, Some e))
       \<and> fst (run wBoth) =
         [Exec [''git'', ''rev-parse'', ''--abbrev-ref'', ''refs/heads/main''],
          Exec [''git'', ''log'', ''-1'', ''HEAD'', ''--format=%B'', ''--''],
          Exec [''git'', ''log'', ''-1'', ''HEAD'', ''--format=%an'', ''--''],
          Exec [''git'', ''log'', ''-1'', ''HEAD'', ''--format=%ae'', ''--''],
          Exec [''git'', ''cat-file'', ''abc123'' @ '':ci.cue''],
          Slog LevelWarn ''failed to get ci.cue'' [(''error'', e)],
          HttpSend
            \<lparr>reqMethod = ''POST'',
             reqURL =
               ''https://api.buildkite.com/v2/organizations/acme/pipelines/my-dot-repo/builds'',
             reqHeader = [(''content-type'', ''application/json''),
                          (''authorization'', ''Bearer s3cr3t'')],
             reqBody = ''{"commit":"abc123","branch":"main","message":"fix bug",'' @
                       ''"author":{"name":"Jane Doe","email":"jane@example.com"}}''\<rparr>,
          HttpSend
            \<lparr>reqMethod = ''POST'', reqURL = ''http://el.ci.svc:8080'',
             reqHeader = [(''content-type'', ''application/json'')],
             reqBody =
               ''{"repo":"my.repo","branch":"main","commit":"abc123","message":"fix bug",'' @
               ''"author":"Jane Doe","email":"jane@example.com"}''\<rparr>,
          Stdout NL,
          Stdout (TAB @ ''buildkite: scheduled:'' @ TAB @ ''https://x/y'' @ NL),
          Stdout (TAB @ ''tekton: event-id:'' @ TAB @ ''e1'' @ NL),
          Stdout NL])
   \<and> snd (run wBoth) = Val None
   \<and> cueDecode wBadCue (fst (git wBadCue [''cat-file'', ''abc123'' @ '':ci.cue'']))
       = Inl ''ci.cue: not a struct''
   \<and> (\<exists>e. readCIConfig wBadCue ''abc123'' =
         ([Exec [''git'', ''cat-file'', ''abc123'' @ '':ci.cue'']],
          Val (\<lparr>Tekton_Pipeline = []\<rparr>, Some e))
       \<and> fst (run wBadCue) =
         [Exec [''git'', ''rev-parse'', ''--abbrev-ref'', ''refs/heads/main''],
          Exec [''git'', ''log'', ''-1'', ''HEAD'', ''--format=%B'', ''--''],
          Exec [''git'', ''log'', ''-1'', ''HEAD'', ''--format=%an'', ''--''],
          Exec [''git'', ''log'', ''-1'', ''HEAD'', ''--format=%ae'', ''--''],
          Exec [''git'', ''cat-file'', ''abc123'' @ '':ci.cue''],
          Slog LevelWarn ''failed to get ci.cue'' [(''error'', e)],
          HttpSend
            \<lparr>reqMethod = ''POST'',
             reqURL =
               ''https://api.buildkite.com/v2/organizations/acme/pipelines/my-dot-repo/builds'',
             reqHeader = [(''content-type'', ''application/json''),
                          (''authorization'', ''Bearer s3cr3t'')],
             reqBody = ''{"commit":"abc123","branch":"main","message":"fix bug",'' @
                       ''"author":{"name":"Jane Doe","email":"jane@example.com"}}''\<rparr>,
          HttpSend
            \<lparr>reqMethod = ''POST'', reqURL = ''http://el.ci.svc:8080'',
             reqHeader = [(''content-type'', ''application/json'')],
             reqBody =
               ''{"repo":"my.repo","branch":"main","commit":"abc123","message":"fix bug",'' @
               ''"author":"Jane Doe","email":"jane@example.com"}''\<rparr>,
          Stdout NL,
          Stdout (TAB @ ''buildkite: scheduled:'' @ TAB @ ''https://x/y'' @ NL),
          Stdout (TAB @ ''tekton: event-id:'' @ TAB @ ''e1'' @ NL),
          Stdout NL])
   \<and> snd (run wBadCue) = Val None
   \<and> map (\<lambda>q. (reqURL q, Inr (reqBody q) :: error + string))
        (requests (fst (run wBadCue))) =
       [(''https://api.buildkite.com/v2/organizations/acme/pipelines/my-dot-repo/builds'',
         Inr (''{"commit":"abc123","branch":"main","message":"fix bug",'' @
              ''"author":{"name":"Jane Doe","email":"jane@example.com"}}'')),
        (''http://el.ci.svc:8080'',
         Inr (''{"repo":"my.repo","branch":"main","commit":"abc123","message":"fix bug",'' @
              ''"author":"Jane Doe","email":"jane@example.com"}''))]\<close>
proof -
  note a = pushMain_world [of envBoth noConfig "httpAnswer 201 ''201 Created''" noCue,
      folded wBoth_def]
  note d = pushMain_world [of envBoth "(''tekton: 3'' @ NL, None)"
      "httpAnswer 201 ''201 Created''" noCue, folded wBadCue_def]
  have as: "pushOptions wBoth ''ci.skip'' = None"
    and ds: "pushOptions wBadCue ''ci.skip'' = None"
    unfolding wBoth_def wBadCue_def by (rule fixture_no_skip)+
  have af: "snd (git wBoth [''cat-file'', ''abc123'' @ '':ci.cue'']) \<noteq> None"
    using a(7) by (simp add: noConfig_def)
  have df: "cueDecode wBadCue (fst (git wBadCue [''cat-file'', ''abc123'' @ '':ci.cue'']))
              = Inl ''ci.cue: not a struct''"
    by (simp add: wBadCue_def noCue_def)
  have abk: \<open>buildkite wBoth ''my.repo'' ''abc123'' ''main'' ''fix bug'' ''Jane Doe''
               ''jane@example.com'' =
      ([HttpSend
          \<lparr>reqMethod = ''POST'',
           reqURL =
             ''https://api.buildkite.com/v2/organizations/acme/pipelines/my-dot-repo/builds'',
           reqHeader = [(''content-type'', ''application/json''),
                        (''authorization'', ''Bearer s3cr3t'')],
           reqBody = ''{"commit":"abc123","branch":"main","message":"fix bug",'' @
                     ''"author":{"name":"Jane Doe","email":"jane@example.com"}}''\<rparr>],
       Val (''scheduled:'' @ TAB @ ''https://x/y'', None))\<close>
    by code_simp
  have atk: \<open>tekton wBoth ''my.repo'' ''abc123'' ''main'' ''fix bug'' ''Jane Doe''
               ''jane@example.com'' \<lparr>Tekton_Pipeline = []\<rparr> =
      ([HttpSend
          \<lparr>reqMethod = ''POST'', reqURL = ''http://el.ci.svc:8080'',
           reqHeader = [(''content-type'', ''application/json'')],
           reqBody =
             ''{"repo":"my.repo","branch":"main","commit":"abc123","message":"fix bug",'' @
             ''"author":"Jane Doe","email":"jane@example.com"}''\<rparr>],
       Val (''event-id:'' @ TAB @ ''e1'', None))\<close>
    by code_simp
  have dbk: \<open>buildkite wBadCue ''my.repo'' ''abc123'' ''main'' ''fix bug'' ''Jane Doe''
               ''jane@example.com'' =
      ([HttpSend
          \<lparr>reqMethod = ''POST'',
           reqURL =
             ''https://api.buildkite.com/v2/organizations/acme/pipelines/my-dot-repo/builds'',
           reqHeader = [(''content-type'', ''application/json''),
                        (''authorization'', ''Bearer s3cr3t'')],
           reqBody = ''{"commit":"abc123","branch":"main","message":"fix bug",'' @
                     ''"author":{"name":"Jane Doe","email":"jane@example.com"}}''\<rparr>],
       Val (''scheduled:'' @ TAB @ ''https://x/y'', None))\<close>
    by code_simp
  have dtk: \<open>tekton wBadCue ''my.repo'' ''abc123'' ''main'' ''fix bug'' ''Jane Doe''
               ''jane@example.com'' \<lparr>Tekton_Pipeline = []\<rparr> =
      ([HttpSend
          \<lparr>reqMethod = ''POST'', reqURL = ''http://el.ci.svc:8080'',
           reqHeader = [(''content-type'', ''application/json'')],
           reqBody =
             ''{"repo":"my.repo","branch":"main","commit":"abc123","message":"fix bug",'' @
             ''"author":"Jane Doe","email":"jane@example.com"}''\<rparr>],
       Val (''event-id:'' @ TAB @ ''e1'', None))\<close>
    by code_simp
  have denv: "Getenv wBadCue ''BUILDKITE_ORG_SLUG'' = ''acme''"
    "Getenv wBadCue ''BUILDKITE_API_TOKEN'' = ''s3cr3t''"
    "Getenv wBadCue ''TEKTON_TRIGGERS_ENDPOINT'' = ''http://el.ci.svc:8080''"
    "newRequestErr wBadCue = (\<lambda>u. None)"
    by (simp_all add: Getenv_def wBadCue_def envBoth_def)
  note A = config_failure_is_soft
    [OF as a(1-6) disjI1 [OF af] refl refl refl refl refl, unfolded fixture_values abk atk]
  have "\<exists>e. cueDecode wBadCue (fst (git wBadCue [''cat-file'', ''abc123'' @ '':ci.cue'']))
              = Inl e"
    using df by blast
  note D = config_failure_is_soft
    [OF ds d(1-6) disjI2 [OF this] refl refl refl refl refl, unfolded fixture_values dbk dtk]
  have aenv: "Getenv wBoth ''BUILDKITE_ORG_SLUG'' = ''acme''"
    "Getenv wBoth ''BUILDKITE_API_TOKEN'' = ''s3cr3t''"
    "Getenv wBoth ''TEKTON_TRIGGERS_ENDPOINT'' = ''http://el.ci.svc:8080''"
    "newRequestErr wBoth = (\<lambda>u. None)"
    by (simp_all add: Getenv_def wBoth_def envBoth_def)
  show ?thesis
    using af A df D by (auto simp add: aenv denv fixture_json)
qed

subsection \<open>The payloads\<close>

lemma buildkite_bodies:
  assumes "Marshal_BuildkitePayload
             \<lparr>Commit = c, Branch = b, Message = m, Author = \<lparr>Name = a, Email = e\<rparr>\<rparr> = Inr js"
  shows "map reqBody (requests (fst (buildkite w r c b m a e))) =
     (if Getenv w ''BUILDKITE_ORG_SLUG'' \<noteq> [] \<and> Getenv w ''BUILDKITE_API_TOKEN'' \<noteq> []
         \<and> newRequestErr w (buildkiteURL (Getenv w ''BUILDKITE_ORG_SLUG'') (sanitize r)) = None
      then [js] else [])"
  unfolding buildkite_def Let_def assms
  by (auto simp: log_Fatalln_def split: option.splits sum.splits)

text \<open>
  C9. The payload of the REST adapter for commit \<open>abc123\<close>, branch \<open>main\<close>, message
  \<open>fix bug\<close>, author \<open>Jane Doe\<close>, email \<open>jane@example.com\<close> marshals to the JSON text of the
  claim; that text is the body of the request the closure sends, in every world and for
  every repository name, whenever it sends one (the closure has no access to the
  configuration); and in the world \<open>wBothCue\<close>, whose \<^verbatim>\<open>ci.cue\<close> sets the pipeline name
  \<open>nightly\<close>, the hook sends that same body to the REST backend, while the override
  appears in the body sent to the webhook.
\<close>

theorem buildkite_payload_of_fixture:
  \<open>Marshal_BuildkitePayload
     \<lparr>Commit = ''abc123'', Branch = ''main'', Message = ''fix bug'',
      Author = \<lparr>Name = ''Jane Doe'', Email = ''jane@example.com''\<rparr>\<rparr> =
     Inr (''{"commit":"abc123","branch":"main","message":"fix bug",'' @
          ''"author":{"name":"Jane Doe","email":"jane@example.com"}}'')
   \<and> map reqBody
        (requests (fst (buildkite w repoName ''abc123'' ''main'' ''fix bug'' ''Jane Doe''
                          ''jane@example.com''))) =
       (if Getenv w ''BUILDKITE_ORG_SLUG'' \<noteq> [] \<and> Getenv w ''BUILDKITE_API_TOKEN'' \<noteq> []
           \<and> newRequestErr w (buildkiteURL (Getenv w ''BUILDKITE_ORG_SLUG'') (sanitize repoName))
               = None
        then [''{"commit":"abc123","branch":"main","message":"fix bug",'' @
              ''"author":{"name":"Jane Doe","email":"jane@example.com"}}'']
        else [])
   \<and> map reqBody (requests (fst (run wBothCue))) =
       [''{"commit":"abc123","branch":"main","message":"fix bug",'' @
        ''"author":{"name":"Jane Doe","email":"jane@example.com"}}'',
        ''{"repo":"my.repo","branch":"main","commit":"abc123","message":"fix bug",'' @
        ''"author":"Jane Doe","email":"jane@example.com","tektonPipeline":"nightly"}'']\<close>
proof (intro conjI)
  show m: \<open>Marshal_BuildkitePayload
     \<lparr>Commit = ''abc123'', Branch = ''main'', Message = ''fix bug'',
      Author = \<lparr>Name = ''Jane Doe'', Email = ''jane@example.com''\<rparr>\<rparr> =
     Inr (''{"commit":"abc123","branch":"main","message":"fix bug",'' @
          ''"author":{"name":"Jane Doe","email":"jane@example.com"}}'')\<close>
    by (rule fixture_json)
  show \<open>map reqBody
        (requests (fst (buildkite w repoName ''abc123'' ''main'' ''fix bug'' ''Jane Doe''
                          ''jane@example.com''))) =
       (if Getenv w ''BUILDKITE_ORG_SLUG'' \<noteq> [] \<and> Getenv w ''BUILDKITE_API_TOKEN'' \<noteq> []
           \<and> newRequestErr w (buildkiteURL (Getenv w ''BUILDKITE_ORG_SLUG'') (sanitize repoName))
               = None
        then [''{"commit":"abc123","branch":"main","message":"fix bug",'' @
              ''"author":{"name":"Jane Doe","email":"jane@example.com"}}'']
        else [])\<close>
    by (rule buildkite_bodies [OF m])
  show \<open>map reqBody (requests (fst (run wBothCue))) =
       [''{"commit":"abc123","branch":"main","message":"fix bug",'' @
        ''"author":{"name":"Jane Doe","email":"jane@example.com"}}'',
        ''{"repo":"my.repo","branch":"main","commit":"abc123","message":"fix bug",'' @
        ''"author":"Jane Doe","email":"jane@example.com","tektonPipeline":"nightly"}'']\<close>
    by code_simp
qed

text \<open>
  C10. On a run that gets to the adapters, with \<open>repo\<close> the base name of the working
  directory without a trailing \<open>.git\<close>: the requests of the run are at most two. The one
  of the REST adapter goes to the URL built from the sanitized name; the one of the
  webhook adapter, sent unless the REST adapter ended the process, carries a payload
  whose \<open>repo\<close> field is \<open>repo\<close> itself. Sanitizing occurs nowhere but in that URL.
\<close>

theorem only_the_url_is_sanitized:
  assumes "pushOptions w ''ci.skip'' = None"
    and "getwd w = Inr dir"
    and "scanln w = Inr (oldRev, newRev, refName)"
    and "git w [''rev-parse'', ''--abbrev-ref'', refName] = (o1, None)"
    and "git w [''log'', ''-1'', ''HEAD'', ''--format=%B'', ''--''] = (o2, None)"
    and "git w [''log'', ''-1'', ''HEAD'', ''--format=%an'', ''--''] = (o3, None)"
    and "git w [''log'', ''-1'', ''HEAD'', ''--format=%ae'', ''--''] = (o4, None)"
    and "readCIConfig w newRev = (ces, Val (cfg, err))"
    and "repo = TrimSuffix (Base dir) ''.git''"
    and "branch = TrimSpace o1" and "message = TrimSpace o2"
    and "author = TrimSpace o3" and "email = TrimSpace o4"
  shows
    "map (\<lambda>q. (reqURL q, Inr (reqBody q))) (requests (fst (run w))) =
       (if Getenv w ''BUILDKITE_ORG_SLUG'' \<noteq> [] \<and> Getenv w ''BUILDKITE_API_TOKEN'' \<noteq> []
           \<and> newRequestErr w (buildkiteURL (Getenv w ''BUILDKITE_ORG_SLUG'') (sanitize repo))
               = None
        then [(buildkiteURL (Getenv w ''BUILDKITE_ORG_SLUG'') (sanitize repo),
               Marshal_BuildkitePayload
                 \<lparr>Commit = newRev, Branch = branch, Message = message,
                  Author = \<lparr>Name = author, Email = email\<rparr>\<rparr>)]
        else [])
       @ (case snd (buildkite w repo newRev branch message author email) of
            Val v \<Rightarrow>
              if Getenv w ''TEKTON_TRIGGERS_ENDPOINT'' \<noteq> []
                 \<and> newRequestErr w (Getenv w ''TEKTON_TRIGGERS_ENDPOINT'') = None
              then [(Getenv w ''TEKTON_TRIGGERS_ENDPOINT'',
                     Marshal_TektonPayload
                       \<lparr>TRepo = repo, TBranch = branch, TCommit = newRev, TMessage = message,
                        TAuthor = author, TEmail = email,
                        TektonPipeline = Tekton_Pipeline cfg\<rparr>)]
              else []
          | Exit n \<Rightarrow> [])"
proof -
  have "requests (fst (run w)) =
          requests (fst (dispatch w repo newRev branch message author email cfg))"
    unfolding assms(9-13) by (rule run_requests [OF assms(1-8)])
  then have rq: "requests (fst (run w)) =
      requests (fst (buildkite w repo newRev branch message author email)) @
      (case snd (buildkite w repo newRev branch message author email) of
         Val v \<Rightarrow> requests (fst (tekton w repo newRev branch message author email cfg))
       | Exit n \<Rightarrow> [])"
    by (simp only: dispatch_requests)
  show ?thesis
  proof (cases "snd (buildkite w repo newRev branch message author email)")
    case (Val v)
    show ?thesis
      unfolding rq Val outcome.case map_append buildkite_requests tekton_requests ..
  next
    case (Exit n)
    show ?thesis
      unfolding rq Exit outcome.case map_append buildkite_requests by simp
  qed
qed

theorem only_the_url_is_sanitized_witness:
  \<open>map (\<lambda>q. (reqURL q, Inr (reqBody q) :: error + string)) (requests (fst (run wBoth))) =
     [(''https://api.buildkite.com/v2/organizations/acme/pipelines/my-dot-repo/builds'',
       Inr (''{"commit":"abc123","branch":"main","message":"fix bug",'' @
            ''"author":{"name":"Jane Doe","email":"jane@example.com"}}'')),
      (''http://el.ci.svc:8080'',
       Inr (''{"repo":"my.repo","branch":"main","commit":"abc123","message":"fix bug",'' @
            ''"author":"Jane Doe","email":"jane@example.com"}''))]\<close>
proof -
  note a = pushMain_world [of envBoth noConfig "httpAnswer 201 ''201 Created''" noCue,
      folded wBoth_def]
  have as: "pushOptions wBoth ''ci.skip'' = None"
    unfolding wBoth_def by (rule fixture_no_skip)
  have ac: "readCIConfig wBoth ''abc123'' =
              ([Exec [''git'', ''cat-file'', ''abc123:ci.cue'']],
               Val (\<lparr>Tekton_Pipeline = []\<rparr>, Some ''git cat-file abc123:ci.cue: exit status 128''))"
    unfolding wBoth_def by (rule fixture_no_config)
  have env: "Getenv wBoth ''BUILDKITE_ORG_SLUG'' = ''acme''"
    "Getenv wBoth ''BUILDKITE_API_TOKEN'' = ''s3cr3t''"
    "Getenv wBoth ''TEKTON_TRIGGERS_ENDPOINT'' = ''http://el.ci.svc:8080''"
    "newRequestErr wBoth = (\<lambda>u. None)"
    by (simp_all add: Getenv_def wBoth_def envBoth_def)
  have ok: "snd (buildkite wBoth ''my.repo'' ''abc123'' ''main'' ''fix bug'' ''Jane Doe''
                   ''jane@example.com'') = Val (''scheduled:'' @ TAB @ ''https://x/y'', None)"
    by code_simp
  show ?thesis
    unfolding only_the_url_is_sanitized
      [OF as a(1-6) ac refl refl refl refl refl, unfolded fixture_values]
    by (simp add: env ok fixture_json)
qed

subsection \<open>Where the process ends, and what the report says\<close>

text \<open>
  The closures end the process in one case only: a request was sent and the answer has a
  status outside 200 to 299 (lines 151 to 157 and 206 to 211). Every other failure is
  returned as an error.
\<close>

lemma buildkite_outcome:
  "snd (buildkite w r c b m a e) = Exit n \<longleftrightarrow>
     n = 1 \<and> Getenv w ''BUILDKITE_ORG_SLUG'' \<noteq> [] \<and> Getenv w ''BUILDKITE_API_TOKEN'' \<noteq> []
     \<and> newRequestErr w (buildkiteURL (Getenv w ''BUILDKITE_ORG_SLUG'') (sanitize r)) = None
     \<and> (\<exists>js res.
           Marshal_BuildkitePayload
             \<lparr>Commit = c, Branch = b, Message = m, Author = \<lparr>Name = a, Email = e\<rparr>\<rparr> = Inr js
           \<and> httpDo w
               \<lparr>reqMethod = ''POST'',
                reqURL = buildkiteURL (Getenv w ''BUILDKITE_ORG_SLUG'') (sanitize r),
                reqHeader = [(''content-type'', ''application/json''),
                             (''authorization'', ''Bearer '' @ Getenv w ''BUILDKITE_API_TOKEN'')],
                reqBody = js\<rparr> = Inr res
           \<and> (StatusCode res < 200 \<or> StatusCode res > 299))"
proof -
  obtain js where js:
    "Marshal_BuildkitePayload
       \<lparr>Commit = c, Branch = b, Message = m, Author = \<lparr>Name = a, Email = e\<rparr>\<rparr> = Inr js"
    by (simp add: Marshal_BuildkitePayload_def)
  show ?thesis
    unfolding buildkite_def Let_def js
    by (auto simp: log_Fatalln_def split: option.splits sum.splits)
qed

lemma tekton_outcome:
  "snd (tekton w r c b m a e cfg) = Exit n \<longleftrightarrow>
     n = 1 \<and> Getenv w ''TEKTON_TRIGGERS_ENDPOINT'' \<noteq> []
     \<and> newRequestErr w (Getenv w ''TEKTON_TRIGGERS_ENDPOINT'') = None
     \<and> (\<exists>js res.
           Marshal_TektonPayload
             \<lparr>TRepo = r, TBranch = b, TCommit = c, TMessage = m, TAuthor = a, TEmail = e,
              TektonPipeline = Tekton_Pipeline cfg\<rparr> = Inr js
           \<and> httpDo w
               \<lparr>reqMethod = ''POST'', reqURL = Getenv w ''TEKTON_TRIGGERS_ENDPOINT'',
                reqHeader = [(''content-type'', ''application/json'')],
                reqBody = js\<rparr> = Inr res
           \<and> (StatusCode res < 200 \<or> StatusCode res > 299))"
proof -
  obtain js where js:
    "Marshal_TektonPayload
       \<lparr>TRepo = r, TBranch = b, TCommit = c, TMessage = m, TAuthor = a, TEmail = e,
        TektonPipeline = Tekton_Pipeline cfg\<rparr> = Inr js"
    by (simp add: Marshal_TektonPayload_def)
  show ?thesis
    unfolding tekton_def Let_def js
    by (auto simp: log_Fatalln_def split: option.splits sum.splits)
qed

text \<open>
  A closure that returns has written nothing to standard output, and returns the empty
  string together with any error.
\<close>

lemma buildkite_returns:
  "buildkite w r c b m a e = (es, Val (resp, err)) \<Longrightarrow>
     stdout es = [] \<and> (err \<noteq> None \<longrightarrow> resp = [])"
proof -
  obtain js where js:
    "Marshal_BuildkitePayload
       \<lparr>Commit = c, Branch = b, Message = m, Author = \<lparr>Name = a, Email = e\<rparr>\<rparr> = Inr js"
    by (simp add: Marshal_BuildkitePayload_def)
  show "buildkite w r c b m a e = (es, Val (resp, err)) \<Longrightarrow>
     stdout es = [] \<and> (err \<noteq> None \<longrightarrow> resp = [])"
    unfolding buildkite_def Let_def js
    by (auto simp: log_Fatalln_def ret_def split: option.splits sum.splits if_splits)
qed

lemma tekton_returns:
  "tekton w r c b m a e cfg = (es, Val (resp, err)) \<Longrightarrow>
     stdout es = [] \<and> (err \<noteq> None \<longrightarrow> resp = [])"
proof -
  obtain js where js:
    "Marshal_TektonPayload
       \<lparr>TRepo = r, TBranch = b, TCommit = c, TMessage = m, TAuthor = a, TEmail = e,
        TektonPipeline = Tekton_Pipeline cfg\<rparr> = Inr js"
    by (simp add: Marshal_TektonPayload_def)
  show "tekton w r c b m a e cfg = (es, Val (resp, err)) \<Longrightarrow>
     stdout es = [] \<and> (err \<noteq> None \<longrightarrow> resp = [])"
    unfolding tekton_def Let_def js
    by (auto simp: log_Fatalln_def ret_def split: option.splits sum.splits if_splits)
qed

text \<open>
  The report of a dispatcher that returns: a blank line, the buildkite line, the tekton
  line, a blank line. The buildkite line carries the text of the closure's error, if it
  returned one; the tekton line carries what the closure returned as its string, which
  is empty when it returned an error.
\<close>

lemma dispatch_report:
  assumes "buildkite w r c b m a e = (bes, Val (bresp, berr))"
    and "tekton w r c b m a e cfg = (tes, Val (tresp, terr))"
  shows "snd (dispatch w r c b m a e cfg) = Val None"
    and "stdout (fst (dispatch w r c b m a e cfg)) =
      [NL,
       TAB @ ''buildkite: '' @ (case berr of Some err \<Rightarrow> err | None \<Rightarrow> bresp) @ NL,
       TAB @ ''tekton: '' @ (case terr of Some err \<Rightarrow> [] | None \<Rightarrow> tresp) @ NL,
       NL]"
proof -
  have b: "stdout bes = []"
    using buildkite_returns [OF assms(1)] by simp
  have t: "stdout tes = []" "terr \<noteq> None \<longrightarrow> tresp = []"
    using tekton_returns [OF assms(2)] by simp_all
  show "snd (dispatch w r c b m a e cfg) = Val None"
    unfolding dispatch_def assms by (simp split: option.splits)
  show "stdout (fst (dispatch w r c b m a e cfg)) =
      [NL,
       TAB @ ''buildkite: '' @ (case berr of Some err \<Rightarrow> err | None \<Rightarrow> bresp) @ NL,
       TAB @ ''tekton: '' @ (case terr of Some err \<Rightarrow> [] | None \<Rightarrow> tresp) @ NL,
       NL]"
    unfolding dispatch_def assms using b t by (auto split: option.splits)
qed

subsection \<open>Runs on which the hook departs from its description\<close>

text \<open>
  C1. In the world \<open>wBuildkite500\<close> both backends are configured and every request is
  answered with status 500. The buildkite closure does not return an error for the
  dispatcher to record: it ends the process with status 1 (\<^verbatim>\<open>log.Fatalln\<close>, line 156).
  The only request of the run is the one to the REST backend, the webhook is never
  contacted, and standard output holds the copied response body and a newline but no
  report.
\<close>

theorem non_2xx_from_buildkite_ends_the_process:
  "snd (buildkite wBuildkite500 ''my.repo'' ''abc123'' ''main'' ''fix bug'' ''Jane Doe''
          ''jane@example.com'') = Exit 1
   \<and> snd (run wBuildkite500) = Exit 1
   \<and> map reqURL (requests (fst (run wBuildkite500))) =
       [''https://api.buildkite.com/v2/organizations/acme/pipelines/my-dot-repo/builds'']
   \<and> Getenv wBuildkite500 ''TEKTON_TRIGGERS_ENDPOINT'' = ''http://el.ci.svc:8080''
   \<and> stdout (fst (run wBuildkite500)) = [''{}'', NL]"
  by code_simp

text \<open>
  C2. In the world \<open>wTekton503\<close> only the webhook is configured, every git command of the
  run succeeds (so metadata extraction does not fail), the configuration is read, and the
  webhook answers with status 503. The exit status of the process is 1
  (\<^verbatim>\<open>log.Fatalln\<close>, line 210).
\<close>

theorem non_2xx_from_tekton_sets_the_exit_status:
  "snd (main wTekton503) = 1
   \<and> execs (fst (main wTekton503)) =
       [[''git'', ''rev-parse'', ''--abbrev-ref'', ''refs/heads/main''],
        [''git'', ''log'', ''-1'', ''HEAD'', ''--format=%B'', ''--''],
        [''git'', ''log'', ''-1'', ''HEAD'', ''--format=%an'', ''--''],
        [''git'', ''log'', ''-1'', ''HEAD'', ''--format=%ae'', ''--''],
        [''git'', ''cat-file'', ''abc123:ci.cue'']]
   \<and> map (\<lambda>argv. snd (git wTekton503 (tl argv))) (execs (fst (main wTekton503))) =
       [None, None, None, None, None]
   \<and> map reqURL (requests (fst (main wTekton503))) = [''http://el.ci.svc:8080'']
   \<and> stdout (fst (main wTekton503)) = [''{}'', NL]"
  by code_simp

text \<open>
  C3. In the world \<open>wFeature\<close> the push moves \<^verbatim>\<open>refs/heads/feature\<close> to revision \<open>def456\<close>,
  whose message is \<open>add feature\<close> by \<open>John Roe\<close>, while \<^verbatim>\<open>HEAD\<close> of the repository is a
  commit with message \<open>fix bug\<close> by \<open>Jane Doe\<close>. The hook asks git about the literal
  \<^verbatim>\<open>HEAD\<close> (lines 97 to 99), never about \<open>def456\<close>, and both payloads pair the commit
  \<open>def456\<close> with the message, author and email of \<^verbatim>\<open>HEAD\<close>.
\<close>

theorem message_and_author_are_read_from_HEAD:
  \<open>execs (fst (run wFeature)) =
       [[''git'', ''rev-parse'', ''--abbrev-ref'', ''refs/heads/feature''],
        [''git'', ''log'', ''-1'', ''HEAD'', ''--format=%B'', ''--''],
        [''git'', ''log'', ''-1'', ''HEAD'', ''--format=%an'', ''--''],
        [''git'', ''log'', ''-1'', ''HEAD'', ''--format=%ae'', ''--''],
        [''git'', ''cat-file'', ''def456:ci.cue'']]
   \<and> git wFeature [''log'', ''-1'', ''def456'', ''--format=%B'', ''--''] =
       (''add feature'' @ NL @ NL, None)
   \<and> git wFeature [''log'', ''-1'', ''def456'', ''--format=%an'', ''--''] =
       (''John Roe'' @ NL, None)
   \<and> git wFeature [''log'', ''-1'', ''def456'', ''--format=%ae'', ''--''] =
       (''john@example.com'' @ NL, None)
   \<and> map reqBody (requests (fst (run wFeature))) =
       [''{"commit":"def456","branch":"feature","message":"fix bug",'' @
        ''"author":{"name":"Jane Doe","email":"jane@example.com"}}'',
        ''{"repo":"my.repo","branch":"feature","commit":"def456","message":"fix bug",'' @
        ''"author":"Jane Doe","email":"jane@example.com"}'']\<close>
  by code_simp

text \<open>
  C4. In the world \<open>wNoCredentials\<close> neither backend is configured. Both closures return
  an error. The report shows the text of the buildkite error, but the tekton line is
  empty after its label: the dispatcher logs the tekton error and does not copy it into
  the string it prints (lines 222 to 224, against line 170 for buildkite).
\<close>

theorem tekton_error_is_missing_from_the_report:
  "buildkite wNoCredentials ''my.repo'' ''abc123'' ''main'' ''fix bug'' ''Jane Doe''
      ''jane@example.com'' = ([], Val ([], Some ''no BUILDKITE_ORG_SLUG found''))
   \<and> tekton wNoCredentials ''my.repo'' ''abc123'' ''main'' ''fix bug'' ''Jane Doe''
      ''jane@example.com'' \<lparr>Tekton_Pipeline = []\<rparr> =
       ([], Val ([], Some ''no TEKTON_TRIGGERS_ENDPOINT provided''))
   \<and> snd (main wNoCredentials) = 0
   \<and> stdout (fst (main wNoCredentials)) =
       [NL,
        TAB @ ''buildkite: no BUILDKITE_ORG_SLUG found'' @ NL,
        TAB @ ''tekton: '' @ NL,
        NL]"
  by code_simp

end
